theory Spec2Isabelle
  imports Main "HOL-Library.Word"
begin

section \<open>JavaScript values used by the job lifecycle\<close>

text \<open>
  A thrown value, or a rejected promise's reason, is of type \<open>any\<close>. \<open>JsError m\<close> is a
  value whose \<open>message\<close> property reads as the string \<open>m\<close> (an \<open>Error\<close>,
  a \<open>DOMException\<close>), or as nothing when \<open>m\<close> is empty (an object or primitive without
  one); \<open>Nullish\<close> is a thrown \<open>undefined\<close> or \<open>null\<close>, on which reading a property
  throws. An operation that can throw, or an \<open>async\<close> function, has the result type
  \<open>js_error + 'a\<close>: \<open>Inl e\<close> is the exception that reaches the caller (the rejected
  promise), \<open>Inr v\<close> the returned value.
\<close>

datatype js_error = JsError string | Nullish

definition tryCatch :: "js_error + 'a \<Rightarrow> (js_error \<Rightarrow> js_error + 'a) \<Rightarrow> js_error + 'a" where
  "tryCatch body handler = (case body of Inl error \<Rightarrow> handler error | Inr v \<Rightarrow> Inr v)"

text \<open>\<open>v || d\<close> on a string that may be \<open>undefined\<close>: the empty string is falsy too.\<close>

definition truthy :: "string option \<Rightarrow> bool" where
  "truthy v = (case v of None \<Rightarrow> False | Some s \<Rightarrow> s \<noteq> [])"

definition orElse :: "string option \<Rightarrow> string \<Rightarrow> string" where
  "orElse v d = (case v of None \<Rightarrow> d | Some s \<Rightarrow> if s = [] then d else s)"

text \<open>
  \<open>error.message\<close> and \<open>error.message || d\<close>, as the \<open>catch\<close> blocks evaluate them:
  a \<open>TypeError\<close> on a thrown \<open>undefined\<close> or \<open>null\<close>.
\<close>

definition typeError :: js_error where
  "typeError = JsError ''Cannot read properties of undefined (reading 'message')''"

definition messageOf :: "js_error \<Rightarrow> js_error + string" where
  "messageOf error = (case error of Nullish \<Rightarrow> Inl typeError | JsError m \<Rightarrow> Inr m)"

definition messageOr :: "js_error \<Rightarrow> string \<Rightarrow> js_error + string" where
  "messageOr error d =
     (case messageOf error of Inl t \<Rightarrow> Inl t | Inr m \<Rightarrow> Inr (if m = [] then d else m))"

definition startsWith :: "string \<Rightarrow> string \<Rightarrow> bool" where
  "startsWith s p = (take (length p) s = p)"

text \<open>\<open>s.replace(pat, rep)\<close> with a string pattern: the first occurrence only.\<close>

fun replaceFirst :: "string \<Rightarrow> string \<Rightarrow> string \<Rightarrow> string" where
  "replaceFirst [] pat rep = (if pat = [] then rep else [])"
| "replaceFirst (c # cs) pat rep =
     (if take (length pat) (c # cs) = pat then rep @ drop (length pat) (c # cs)
      else c # replaceFirst cs pat rep)"

text \<open>
  Template-literal conversion of an integral number to its decimal digits, as JavaScript
  writes the numbers below \<open>1e21\<close> in magnitude (the clock, HTTP status codes, widths,
  heights and the durations of a UI request are); beyond, it writes an exponent.
\<close>

function digits :: "nat \<Rightarrow> string" where
  "digits n = (if n < 10 then [''0123456789'' ! n]
               else digits (n div 10) @ [''0123456789'' ! (n mod 10)])"
  by pat_completeness auto
termination
  by (relation "measure id") auto

declare digits.simps [simp del]

definition toString :: "int \<Rightarrow> string" where
  "toString i = (if i < 0 then CHR ''-'' # digits (nat (- i)) else digits (nat i))"

subsection \<open>\<open>encodeURIComponent\<close> on UTF-16 strings\<close>

text \<open>
  The prompt is user text, so it is kept as the list of its UTF-16 code units.
  \<open>encodeURIComponent\<close> copies the unreserved characters \<open>A-Z a-z 0-9 - _ . ! ~ * ' ( )\<close>,
  writes every other code point as the percent-escaped octets of its UTF-8 encoding, and
  throws a \<open>URIError\<close> on a surrogate that has no partner.
\<close>

definition unreserved :: "16 word \<Rightarrow> bool" where
  "unreserved c =
     (let u = unat c in
        (0x41 \<le> u \<and> u \<le> 0x5A) \<or> (0x61 \<le> u \<and> u \<le> 0x7A) \<or> (0x30 \<le> u \<and> u \<le> 0x39)
        \<or> u \<in> {0x2D, 0x5F, 0x2E, 0x21, 0x7E, 0x2A, 0x27, 0x28, 0x29})"

definition leadingSurrogate :: "16 word \<Rightarrow> bool" where
  "leadingSurrogate c = (0xD800 \<le> unat c \<and> unat c \<le> 0xDBFF)"

definition trailingSurrogate :: "16 word \<Rightarrow> bool" where
  "trailingSurrogate c = (0xDC00 \<le> unat c \<and> unat c \<le> 0xDFFF)"

definition codePoint :: "16 word \<Rightarrow> 16 word \<Rightarrow> nat" where
  "codePoint c d = (unat c - 0xD800) * 0x400 + (unat d - 0xDC00) + 0x10000"

definition utf8 :: "nat \<Rightarrow> nat list" where
  "utf8 cp =
     (if cp < 0x80 then [cp]
      else if cp < 0x800 then [0xC0 + cp div 0x40, 0x80 + cp mod 0x40]
      else if cp < 0x10000
        then [0xE0 + cp div 0x1000, 0x80 + (cp div 0x40) mod 0x40, 0x80 + cp mod 0x40]
      else [0xF0 + cp div 0x40000, 0x80 + (cp div 0x1000) mod 0x40,
            0x80 + (cp div 0x40) mod 0x40, 0x80 + cp mod 0x40])"

definition hexDigit :: "nat \<Rightarrow> char" where
  "hexDigit n = ''0123456789ABCDEF'' ! n"

definition percentEscape :: "nat list \<Rightarrow> string" where
  "percentEscape octets =
     concat (map (\<lambda>b. [CHR ''%'', hexDigit (b div 16), hexDigit (b mod 16)]) octets)"

definition uriError :: js_error where
  "uriError = JsError ''URI malformed''"

definition prepend :: "string \<Rightarrow> js_error + string \<Rightarrow> js_error + string" where
  "prepend s r = (case r of Inl e \<Rightarrow> Inl e | Inr t \<Rightarrow> Inr (s @ t))"

fun encodeURIComponent :: "16 word list \<Rightarrow> js_error + string" where
  "encodeURIComponent [] = Inr []"
| "encodeURIComponent (c # cs) =
     (if unreserved c then prepend [char_of (unat c)] (encodeURIComponent cs)
      else if \<not> leadingSurrogate c \<and> \<not> trailingSurrogate c
        then prepend (percentEscape (utf8 (unat c))) (encodeURIComponent cs)
      else if trailingSurrogate c then Inl uriError
      else (case cs of
              [] \<Rightarrow> Inl uriError
            | d # ds \<Rightarrow>
                if trailingSurrogate d
                then prepend (percentEscape (utf8 (codePoint c d))) (encodeURIComponent ds)
                else Inl uriError))"

text \<open>The code units of an ASCII literal, for writing prompts down.\<close>

definition units :: "string \<Rightarrow> 16 word list" where
  "units s = map (\<lambda>c. of_nat (of_char c)) s"

section \<open>Data model (\<open>src/types.ts\<close>)\<close>

datatype UserTier = Free | Basic | Pro

datatype AspectRatio = R9x16 | R16x9 | R1x1

text \<open>\<open>PricingTier\<close> without its \<open>price\<close>, a fractional number no operation here reads.\<close>

record PricingTier =
  name :: string
  gensPerMonth :: nat
  maxLength :: int
  model :: string
  watermark :: bool
  hasAds :: bool
  resolution :: string

definition PRICING :: "UserTier \<Rightarrow> PricingTier" where
  "PRICING tier =
     (case tier of
        Free \<Rightarrow> \<lparr>name = ''Free'', gensPerMonth = 10, maxLength = 10,
                 model = ''Hailuo-02 (MiniMax)'', watermark = True, hasAds = True,
                 resolution = ''768p''\<rparr>
      | Basic \<Rightarrow> \<lparr>name = ''Basic'', gensPerMonth = 120, maxLength = 15,
                  model = ''Kling 2.5 Turbo'', watermark = False, hasAds = False,
                  resolution = ''1080p''\<rparr>
      | Pro \<Rightarrow> \<lparr>name = ''Pro'', gensPerMonth = 300, maxLength = 30,
                model = ''Kling 2.5 + Veo Toggle'', watermark = False, hasAds = False,
                resolution = ''1080p''\<rparr>)"

text \<open>Durations are whole seconds (the UI's slider), so \<open>number\<close> is \<open>int\<close> here.\<close>

record VideoConfig =
  prompt :: "16 word list"
  aspectRatio :: AspectRatio
  duration :: int
  image :: "string option"

section \<open>The client service (\<open>src/services/asyncVideoService.ts\<close>)\<close>

subsection \<open>The world one call runs in\<close>

text \<open>
  A \<open>fetch\<close> either rejects or resolves to a response; \<open>response.json()\<close> either
  rejects or resolves to the parsed body.
\<close>

record 'd Response =
  ok :: bool
  status :: nat
  json :: "js_error + 'd"

record FalRequest =
  body_prompt :: "16 word list"
  body_duration :: int
  body_resolution :: string
  body_aspect_ratio :: AspectRatio

record FalCreateData =
  request_id :: "string option"
  job_id :: "string option"

record StatusData =
  d_status :: "string option"
  d_video_url :: "string option"
  d_thumbnail_url :: "string option"
  d_error :: "string option"

datatype storage_op = GetItem | SetItem | RemoveItem

text \<open>
  \<open>now\<close> is \<open>Date.now()\<close> in milliseconds (one call reads the clock as one value,
  before any wait), \<open>random36\<close> the six characters of
  \<open>Math.random().toString(36).substring(2, 8)\<close>, the three keys are \<open>process.env\<close>,
  \<open>storageFault\<close> says which \<open>localStorage\<close> accesses throw (no storage outside a
  browser, access denied, quota exceeded). \<open>falSubmit key body\<close> is the outcome of the
  POST to FAL, \<open>falStatus key url\<close> and \<open>piapiStatus key url\<close> of the status GETs, and
  \<open>headFetch url i\<close> of the \<open>i\<close>-th HEAD request to \<open>url\<close> within the call.
\<close>

record Env =
  now :: int
  random36 :: string
  FAL_API_KEY :: "string option"
  PIAPI_API_KEY :: "string option"
  GOOGLE_API_KEY :: "string option"
  storageFault :: "storage_op \<Rightarrow> js_error option"
  falSubmit :: "string \<Rightarrow> FalRequest \<Rightarrow> js_error + FalCreateData Response"
  falStatus :: "string \<Rightarrow> string \<Rightarrow> js_error + StatusData Response"
  piapiStatus :: "string option \<Rightarrow> string \<Rightarrow> js_error + StatusData Response"
  headFetch :: "string \<Rightarrow> nat \<Rightarrow> js_error + unit Response"

subsection \<open>Job records in \<open>localStorage\<close>\<close>

text \<open>
  The JSON object stored under \<open>video_job_<id>\<close>. \<open>createdAt\<close> is written as an
  ISO string and read back with \<open>new Date(...).getTime()\<close>, which returns the same
  milliseconds. An image-sequence job has no \<open>falJobId\<close>; a FAL job has no
  \<open>isImageSequence\<close>, which reads as falsy.
\<close>

record Job =
  j_id :: string
  j_falJobId :: "string option"
  j_provider :: string
  j_prompt :: "16 word list"
  j_aspectRatio :: AspectRatio
  j_duration :: int
  j_status :: string
  j_createdAt :: int
  j_isImageSequence :: bool

type_synonym Storage = "string \<rightharpoonup> Job"

definition jobKey :: "string \<Rightarrow> string" where
  "jobKey jobId = ''video_job_'' @ jobId"

definition getItem :: "Env \<Rightarrow> Storage \<Rightarrow> string \<Rightarrow> js_error + Job option" where
  "getItem env st k = (case storageFault env GetItem of Some e \<Rightarrow> Inl e | None \<Rightarrow> Inr (st k))"

definition setItem :: "Env \<Rightarrow> Storage \<Rightarrow> string \<Rightarrow> Job \<Rightarrow> js_error + Storage" where
  "setItem env st k v =
     (case storageFault env SetItem of Some e \<Rightarrow> Inl e | None \<Rightarrow> Inr (st(k \<mapsto> v)))"

definition removeItem :: "Env \<Rightarrow> Storage \<Rightarrow> string \<Rightarrow> js_error + Storage" where
  "removeItem env st k =
     (case storageFault env RemoveItem of Some e \<Rightarrow> Inl e | None \<Rightarrow> Inr (st(k := None)))"

text \<open>
  What \<open>getApiKey\<close> returns once \<open>process.env\<close> has been read: the configured key,
  or the demo key when none, or an empty one, is configured.
\<close>

definition getApiKey :: "Env \<Rightarrow> string \<Rightarrow> string" where
  "getApiKey env provider =
     (if provider = ''fal'' then orElse (FAL_API_KEY env) ''demo_fal_key''
      else if provider = ''piapi'' then orElse (PIAPI_API_KEY env) ''demo_piapi_key''
      else if provider = ''google'' then orElse (GOOGLE_API_KEY env) ''demo_google_key''
      else [])"

text \<open>
  \<open>getApiKey\<close> reads \<open>process.env\<close>. Where the runtime has a \<open>process\<close> global
  (Node, a bundle that defines it) the call returns the value above; where it has none
  (a bare browser page) the read throws a \<open>ReferenceError\<close>.
\<close>

datatype runtime = WithProcess | WithoutProcess

definition readApiKey :: "runtime \<Rightarrow> Env \<Rightarrow> string \<Rightarrow> js_error + string" where
  "readApiKey rt env provider =
     (case rt of
        WithoutProcess \<Rightarrow> Inl (JsError ''process is not defined'')
      | WithProcess \<Rightarrow> Inr (getApiKey env provider))"

text \<open>The test \<open>!apiKey || apiKey.startsWith('demo_')\<close>.\<close>

definition noRealKey :: "string \<Rightarrow> bool" where
  "noRealKey apiKey = (apiKey = [] \<or> startsWith apiKey ''demo_'')"

subsection \<open>\<open>createVideoJob\<close>\<close>

record CreateResult =
  c_jobId :: string
  c_status :: string
  c_error :: "string option"
  c_isImageSequence :: bool

definition newJobId :: "Env \<Rightarrow> string \<Rightarrow> string" where
  "newJobId env pre = pre @ toString (now env) @ ''_'' @ random36 env"

text \<open>
  The source has the same block twice, for the free tier and for a missing key: build
  an \<open>img_\<close> job, store it, answer \<open>queued\<close>.
\<close>

definition imageJob :: "Env \<Rightarrow> VideoConfig \<Rightarrow> Job" where
  "imageJob env config =
     \<lparr>j_id = newJobId env ''img_'', j_falJobId = None, j_provider = ''image'',
      j_prompt = prompt config, j_aspectRatio = aspectRatio config,
      j_duration = min (duration config) 16, j_status = ''queued'',
      j_createdAt = now env, j_isImageSequence = True\<rparr>"

definition createImageJob ::
  "Env \<Rightarrow> Storage \<Rightarrow> VideoConfig \<Rightarrow> js_error + CreateResult \<times> Storage" where
  "createImageJob env st config =
     (let jobId = newJobId env ''img_'' in
      case setItem env st (jobKey jobId) (imageJob env config) of
        Inl e \<Rightarrow> Inl e
      | Inr st' \<Rightarrow>
          Inr (\<lparr>c_jobId = jobId, c_status = ''queued'', c_error = None,
                c_isImageSequence = True\<rparr>, st'))"

definition falRequest :: "VideoConfig \<Rightarrow> UserTier \<Rightarrow> FalRequest" where
  "falRequest config tier =
     \<lparr>body_prompt = prompt config,
      body_duration = min (duration config) (if tier = Pro then 30 else 15),
      body_resolution = ''1080p'',
      body_aspect_ratio = aspectRatio config\<rparr>"

definition falJob :: "Env \<Rightarrow> VideoConfig \<Rightarrow> UserTier \<Rightarrow> FalCreateData \<Rightarrow> Job" where
  "falJob env config tier data =
     (let jobId = newJobId env ''job_'' in
      \<lparr>j_id = jobId,
       j_falJobId = Some (orElse (request_id data) (orElse (job_id data) jobId)),
       j_provider = ''fal'', j_prompt = prompt config, j_aspectRatio = aspectRatio config,
       j_duration = min (duration config) (if tier = Pro then 30 else 15),
       j_status = ''queued'', j_createdAt = now env, j_isImageSequence = False\<rparr>)"

text \<open>The \<open>try\<close> block; \<open>Inl\<close> is what its \<open>catch\<close> receives.\<close>

definition createVideoJob_try ::
  "runtime \<Rightarrow> Env \<Rightarrow> Storage \<Rightarrow> VideoConfig \<Rightarrow> UserTier
     \<Rightarrow> js_error + CreateResult \<times> Storage" where
  "createVideoJob_try rt env st config tier =
     (if tier = Free then createImageJob env st config
      else
        let provider = (if tier = Pro then ''fal'' else ''fal'') in
        (case readApiKey rt env provider of
           Inl e \<Rightarrow> Inl e
         | Inr apiKey \<Rightarrow>
             if noRealKey apiKey then createImageJob env st config
             else
               let jobId = newJobId env ''job_'' in
               if provider = ''fal'' then
                 (case falSubmit env apiKey (falRequest config tier) of
                    Inl e \<Rightarrow> Inl e
                  | Inr response \<Rightarrow>
                      if \<not> ok response
                      then Inl (JsError (''FAL API error: '' @ toString (int (status response))))
                      else
                        (case json response of
                           Inl e \<Rightarrow> Inl e
                         | Inr data \<Rightarrow>
                             (case setItem env st (jobKey jobId) (falJob env config tier data) of
                                Inl e \<Rightarrow> Inl e
                              | Inr st' \<Rightarrow>
                                  Inr (\<lparr>c_jobId = jobId, c_status = ''queued'', c_error = None,
                                        c_isImageSequence = False\<rparr>, st'))))
               else Inl (JsError ''Unsupported provider'')))"

text \<open>
  The function in a runtime: the \<open>try\<close> block, and the \<open>catch\<close> that answers
  \<open>failed\<close> with \<open>error.message || 'Failed to create video job'\<close>.
\<close>

definition createVideoJob_in ::
  "runtime \<Rightarrow> Env \<Rightarrow> Storage \<Rightarrow> VideoConfig \<Rightarrow> UserTier
     \<Rightarrow> js_error + CreateResult \<times> Storage" where
  "createVideoJob_in rt env st config tier =
     tryCatch (createVideoJob_try rt env st config tier)
       (\<lambda>error.
          case messageOr error ''Failed to create video job'' of
            Inl t \<Rightarrow> Inl t
          | Inr msg \<Rightarrow>
              Inr (\<lparr>c_jobId = [], c_status = ''failed'', c_error = Some msg,
                    c_isImageSequence = False\<rparr>, st))"

text \<open>The function where \<open>process\<close> exists.\<close>

definition createVideoJob ::
  "Env \<Rightarrow> Storage \<Rightarrow> VideoConfig \<Rightarrow> UserTier \<Rightarrow> js_error + CreateResult \<times> Storage" where
  "createVideoJob env st config tier = createVideoJob_in WithProcess env st config tier"

subsection \<open>\<open>getVideoJobStatus\<close>\<close>

record StatusResult =
  s_status :: string
  s_videoUrl :: "string option"
  s_thumbnail :: "string option"
  s_error :: "string option"
  s_isImageSequence :: bool

definition statusOnly :: "string \<Rightarrow> StatusResult" where
  "statusOnly st =
     \<lparr>s_status = st, s_videoUrl = None, s_thumbnail = None, s_error = None,
      s_isImageSequence = False\<rparr>"

definition failedWith :: "string \<Rightarrow> StatusResult" where
  "failedWith msg =
     \<lparr>s_status = ''failed'', s_videoUrl = None, s_thumbnail = None, s_error = Some msg,
      s_isImageSequence = False\<rparr>"

text \<open>The two Pollinations locators of an image-sequence job.\<close>

definition width :: "Job \<Rightarrow> int" where
  "width job = (if j_aspectRatio job = R9x16 then 576 else 1024)"

definition height :: "Job \<Rightarrow> int" where
  "height job = (if j_aspectRatio job = R9x16 then 1024 else 576)"

definition videoUrlOf :: "Job \<Rightarrow> string \<Rightarrow> string" where
  "videoUrlOf job encoded =
     ''https://image.pollinations.ai/prompt/'' @ encoded
     @ ''?width='' @ toString (width job) @ ''&height='' @ toString (height job)
     @ ''&duration='' @ toString (min (if j_duration job = 0 then 10 else j_duration job) 16)
     @ ''&format=mp4&nologo=true''"

definition imageUrlOf :: "Job \<Rightarrow> string \<Rightarrow> string" where
  "imageUrlOf job encoded =
     ''https://image.pollinations.ai/prompt/'' @ encoded
     @ ''?width='' @ toString (width job) @ ''&height='' @ toString (height job)
     @ ''&nologo=true''"

definition responded :: "js_error + 'd Response \<Rightarrow> bool" where
  "responded r = (case r of Inl e \<Rightarrow> False | Inr response \<Rightarrow> ok response)"

text \<open>
  The loop \<open>for (let i = 0; i < 40; i++)\<close> of HEAD requests, each failed one followed
  by a wait of 5000 ms: \<open>Some i\<close> when attempt \<open>i\<close> is the first that answers ok (after
  \<open>i\<close> waits), \<open>None\<close> when all 40 fail (after 40 waits).
\<close>

function headLoop :: "(nat \<Rightarrow> js_error + unit Response) \<Rightarrow> nat \<Rightarrow> nat option" where
  "headLoop probe i =
     (if i < 40 then (if responded (probe i) then Some i else headLoop probe (i + 1))
      else None)"
  by pat_completeness auto
termination
  by (relation "measure (\<lambda>(probe, i). 40 - i)") auto

declare headLoop.simps [simp del]

text \<open>The two \<open>completed\<close> answers of the image-sequence branch.\<close>

definition videoReadyResult :: "string \<Rightarrow> StatusResult" where
  "videoReadyResult videoUrl =
     \<lparr>s_status = ''completed'', s_videoUrl = Some videoUrl,
      s_thumbnail = Some (replaceFirst videoUrl ''.mp4'' ''.jpg''),
      s_error = None, s_isImageSequence = True\<rparr>"

definition imageFallbackResult :: "string \<Rightarrow> StatusResult" where
  "imageFallbackResult imageUrl =
     \<lparr>s_status = ''completed'', s_videoUrl = Some imageUrl, s_thumbnail = Some imageUrl,
      s_error = Some ''Video generation timed out, using image instead'',
      s_isImageSequence = True\<rparr>"

text \<open>
  The image-sequence branch past the threshold. The second component is the time the
  call spent in \<open>setTimeout\<close> waits, in milliseconds.
\<close>

definition imageSequenceResult :: "Env \<Rightarrow> Job \<Rightarrow> js_error + StatusResult \<times> nat" where
  "imageSequenceResult env job =
     (case encodeURIComponent (j_prompt job) of
        Inl e \<Rightarrow> Inl e
      | Inr encoded \<Rightarrow>
          let videoUrl = videoUrlOf job encoded in
          (case headLoop (headFetch env videoUrl) 0 of
             Some i \<Rightarrow> Inr (videoReadyResult videoUrl, 5000 * i)
           | None \<Rightarrow> Inr (imageFallbackResult (imageUrlOf job encoded), 5000 * 40)))"

text \<open>
  The inner \<open>try\<close> of the FAL branch: the real status request. \<open>Inl\<close> is what its
  \<open>catch\<close> receives.
\<close>

definition falStatusUrl :: "Job \<Rightarrow> string" where
  "falStatusUrl job =
     ''https://fal.run/fal-ai/kling-video/v2.5-turbo'' @ ''/''
     @ (case j_falJobId job of None \<Rightarrow> ''undefined'' | Some i \<Rightarrow> i)"

definition relayStatus :: "StatusData \<Rightarrow> StatusResult" where
  "relayStatus data =
     (if d_status data = Some ''completed'' \<and> truthy (d_video_url data)
      then \<lparr>s_status = ''completed'', s_videoUrl = d_video_url data,
            s_thumbnail = (if truthy (d_thumbnail_url data) then d_thumbnail_url data
                           else d_video_url data),
            s_error = None, s_isImageSequence = False\<rparr>
      else if d_status data = Some ''failed''
      then failedWith (orElse (d_error data) ''Video generation failed'')
      else statusOnly (orElse (d_status data) ''processing''))"

definition checkFal :: "Env \<Rightarrow> Job \<Rightarrow> string \<Rightarrow> js_error + StatusResult" where
  "checkFal env job apiKey =
     (case falStatus env apiKey (falStatusUrl job) of
        Inl e \<Rightarrow> Inl e
      | Inr response \<Rightarrow>
          if \<not> ok response
          then Inl (JsError (''FAL API error: '' @ toString (int (status response))))
          else (case json response of Inl e \<Rightarrow> Inl e | Inr data \<Rightarrow> Inr (relayStatus data)))"

text \<open>The simulation that follows the inner \<open>try\<close> when it did not return.\<close>

definition simulated :: "Env \<Rightarrow> Job \<Rightarrow> string \<Rightarrow> StatusResult" where
  "simulated env job jobId =
     (let elapsed = now env - j_createdAt job in
      if elapsed < 30000 then statusOnly ''processing''
      else \<lparr>s_status = ''completed'',
            s_videoUrl = Some ''https://sample-videos.com/zip/10/mp4/SampleVideo_1280x720_1mb.mp4'',
            s_thumbnail = Some (''https://picsum.photos/320/180?random='' @ jobId),
            s_error = None, s_isImageSequence = False\<rparr>)"

text \<open>The test \<open>job.isImageSequence || job.provider === 'image'\<close>.\<close>

definition isImageJob :: "Job \<Rightarrow> bool" where
  "isImageJob job = (j_isImageSequence job \<or> j_provider job = ''image'')"

text \<open>
  The \<open>try\<close> block of the poll. The result is paired with the milliseconds the call
  spent in \<open>setTimeout\<close> waits; only the image-sequence branch waits.
\<close>

definition getVideoJobStatus_try ::
  "runtime \<Rightarrow> Env \<Rightarrow> Storage \<Rightarrow> string \<Rightarrow> js_error + StatusResult \<times> nat" where
  "getVideoJobStatus_try rt env st jobId =
     (case getItem env st (jobKey jobId) of
        Inl e \<Rightarrow> Inl e
      | Inr None \<Rightarrow> Inr (failedWith ''Job not found'', 0)
      | Inr (Some job) \<Rightarrow>
          if isImageJob job then
            (let elapsed = now env - j_createdAt job in
             if elapsed < 5000 then Inr (statusOnly ''processing'', 0)
             else imageSequenceResult env job)
          else
            (case readApiKey rt env (j_provider job) of
               Inl e \<Rightarrow> Inl e
             | Inr apiKey \<Rightarrow>
                 if j_provider job = ''fal'' then
                   (if \<not> noRealKey apiKey then
                      (case checkFal env job apiKey of
                         Inr r \<Rightarrow> Inr (r, 0)
                       | Inl e \<Rightarrow> Inr (simulated env job jobId, 0))
                    else Inr (simulated env job jobId, 0))
                 else Inr (failedWith ''Unknown provider'', 0)))"

definition getVideoJobStatus_in ::
  "runtime \<Rightarrow> Env \<Rightarrow> Storage \<Rightarrow> string \<Rightarrow> js_error + StatusResult \<times> nat" where
  "getVideoJobStatus_in rt env st jobId =
     tryCatch (getVideoJobStatus_try rt env st jobId)
       (\<lambda>error.
          case messageOr error ''Failed to check job status'' of
            Inl t \<Rightarrow> Inl t
          | Inr msg \<Rightarrow> Inr (failedWith msg, 0))"

text \<open>The poll where \<open>process\<close> exists.\<close>

definition getVideoJobStatus ::
  "Env \<Rightarrow> Storage \<Rightarrow> string \<Rightarrow> js_error + StatusResult \<times> nat" where
  "getVideoJobStatus env st jobId = getVideoJobStatus_in WithProcess env st jobId"

subsection \<open>\<open>completeVideoGeneration\<close>\<close>

record GenerationResponse =
  g_success :: bool
  g_videoUrl :: "string option"
  g_thumbnail :: "string option"
  g_error :: "string option"
  g_tier :: "UserTier option"
  g_hasAdCard :: "bool option"
  g_jobId :: "string option"

definition notSucceeded :: "string \<Rightarrow> GenerationResponse" where
  "notSucceeded msg =
     \<lparr>g_success = False, g_videoUrl = None, g_thumbnail = None, g_error = Some msg,
      g_tier = None, g_hasAdCard = None, g_jobId = None\<rparr>"

text \<open>
  Finalize polls the job itself; the status it acts on is that poll's (the \<open>status\<close>
  field of the stored record is written once, as \<open>queued\<close>, and never read).
\<close>

definition completeVideoGeneration_try ::
  "runtime \<Rightarrow> Env \<Rightarrow> Storage \<Rightarrow> string \<Rightarrow> UserTier
     \<Rightarrow> js_error + GenerationResponse \<times> Storage" where
  "completeVideoGeneration_try rt env st jobId tier =
     (case getVideoJobStatus_in rt env st jobId of
        Inl e \<Rightarrow> Inl e
      | Inr (statusResult, waited) \<Rightarrow>
          if s_status statusResult \<noteq> ''completed''
          then Inr (notSucceeded (''Job not completed. Status: '' @ s_status statusResult), st)
          else
            (case removeItem env st (jobKey jobId) of
               Inl e \<Rightarrow> Inl e
             | Inr st' \<Rightarrow>
                 Inr (\<lparr>g_success = True, g_videoUrl = s_videoUrl statusResult,
                       g_thumbnail = s_thumbnail statusResult, g_error = None,
                       g_tier = Some tier, g_hasAdCard = Some (tier = Free),
                       g_jobId = Some jobId\<rparr>, st')))"

definition completeVideoGeneration_in ::
  "runtime \<Rightarrow> Env \<Rightarrow> Storage \<Rightarrow> string \<Rightarrow> UserTier
     \<Rightarrow> js_error + GenerationResponse \<times> Storage" where
  "completeVideoGeneration_in rt env st jobId tier =
     tryCatch (completeVideoGeneration_try rt env st jobId tier)
       (\<lambda>error.
          case messageOr error ''Failed to complete video generation'' of
            Inl t \<Rightarrow> Inl t
          | Inr msg \<Rightarrow> Inr (notSucceeded msg, st))"

text \<open>Finalize where \<open>process\<close> exists.\<close>

definition completeVideoGeneration ::
  "Env \<Rightarrow> Storage \<Rightarrow> string \<Rightarrow> UserTier \<Rightarrow> js_error + GenerationResponse \<times> Storage" where
  "completeVideoGeneration env st jobId tier =
     completeVideoGeneration_in WithProcess env st jobId tier"

section \<open>The HTTP handler (\<open>api/video.ts\<close>)\<close>

text \<open>
  The objects of the handler's \<open>jobStore\<close> map. \<open>createVideoJob\<close> builds them with
  \<open>externalJobId\<close> and without \<open>error\<close>, \<open>videoUrl\<close> or \<open>thumbnail\<close>; the status
  handler assigns \<open>status\<close> and \<open>error\<close>, the complete handler reads \<open>videoUrl\<close> and
  \<open>thumbnail\<close>.
\<close>

record ApiJob =
  a_id :: string
  a_prompt :: "16 word list"
  a_aspectRatio :: string
  a_duration :: int
  a_tier :: string
  a_provider :: string
  a_status :: string
  a_createdAt :: int
  a_externalJobId :: "string option"
  a_error :: "string option"
  a_videoUrl :: "string option"
  a_thumbnail :: "string option"

type_synonym JobStore = "string \<rightharpoonup> ApiJob"

text \<open>A query parameter is absent, one string, or an array of strings.\<close>

datatype query = Absent | Single string | Multiple "string list"

record StatusBody =
  b_status :: string
  b_jobId :: string
  b_videoUrl :: "string option"
  b_thumbnail :: "string option"
  b_error :: "string option"

record CompleteBody =
  r_success :: bool
  r_videoUrl :: "string option"
  r_thumbnail :: "string option"
  r_jobId :: string
  r_prompt :: "16 word list"
  r_aspectRatio :: string
  r_duration :: int
  r_tier :: string
  r_provider :: string

datatype Body = ErrorBody string "string option" | StatusJson StatusBody | CompleteJson CompleteBody

record HttpResponse =
  code :: nat
  payload :: Body

definition respond :: "nat \<Rightarrow> Body \<Rightarrow> HttpResponse" where
  "respond c b = \<lparr>code = c, payload = b\<rparr>"

definition serverApiKey :: "Env \<Rightarrow> string \<Rightarrow> string option" where
  "serverApiKey env provider =
     (if provider = ''fal'' then FAL_API_KEY env
      else if provider = ''google'' then GOOGLE_API_KEY env
      else if provider = ''piapi'' then PIAPI_API_KEY env
      else None)"

definition statusData :: "ApiJob \<Rightarrow> string \<Rightarrow> StatusBody" where
  "statusData job st =
     \<lparr>b_status = st, b_jobId = a_id job, b_videoUrl = None, b_thumbnail = None, b_error = None\<rparr>"

definition piapiStatusUrl :: "ApiJob \<Rightarrow> string" where
  "piapiStatusUrl job =
     ''https://api.piapi.ai/v1/video/generations'' @ ''/''
     @ (case a_externalJobId job of None \<Rightarrow> ''null'' | Some i \<Rightarrow> i)"

text \<open>The \<open>try\<close> block of the status handler, for a job found in the store.\<close>

definition statusOfJob ::
  "Env \<Rightarrow> JobStore \<Rightarrow> string \<Rightarrow> ApiJob \<Rightarrow> js_error + HttpResponse \<times> JobStore" where
  "statusOfJob env store jobId job =
     (let apiKey = serverApiKey env (a_provider job) in
      if a_provider job = ''fal'' then
        (let elapsed = now env - a_createdAt job in
         if elapsed \<ge> 30000
         then Inr (respond 200 (StatusJson
                     \<lparr>b_status = ''completed'', b_jobId = a_id job,
                      b_videoUrl = Some ''https://sample-videos.com/zip/10/mp4/SampleVideo_1280x720_1mb.mp4'',
                      b_thumbnail = Some (''https://picsum.photos/320/180?random='' @ jobId),
                      b_error = None\<rparr>),
                   store(jobId \<mapsto> job\<lparr>a_status := ''completed''\<rparr>))
         else Inr (respond 200 (StatusJson (statusData job ''processing'')), store))
      else if a_provider job = ''piapi'' then
        (case piapiStatus env apiKey (piapiStatusUrl job) of
           Inl e \<Rightarrow> Inl e
         | Inr response \<Rightarrow>
             if ok response then
               (case json response of
                  Inl e \<Rightarrow> Inl e
                | Inr data \<Rightarrow>
                    if d_status data = Some ''completed'' \<and> truthy (d_video_url data)
                    then Inr (respond 200 (StatusJson
                                \<lparr>b_status = ''completed'', b_jobId = a_id job,
                                 b_videoUrl = d_video_url data,
                                 b_thumbnail = d_thumbnail_url data, b_error = None\<rparr>),
                              store(jobId \<mapsto> job\<lparr>a_status := ''completed''\<rparr>))
                    else if d_status data = Some ''failed''
                    then
                      (let err = orElse (d_error data) ''Video generation failed'' in
                       Inr (respond 200 (StatusJson
                              ((statusData job ''failed'')\<lparr>b_error := Some err\<rparr>)),
                            store(jobId \<mapsto> job\<lparr>a_status := ''failed'', a_error := Some err\<rparr>)))
                    else Inr (respond 200 (StatusJson
                                (statusData job (orElse (d_status data) ''processing''))),
                              store))
             else Inr (respond 200 (StatusJson (statusData job (a_status job))), store))
      else Inr (respond 200 (StatusJson (statusData job (a_status job))), store))"

text \<open>
  The status handler. Its \<open>catch\<close> reads \<open>error.message\<close>; what that throws reaches
  the \<open>try\<close> of the default export, which answers 500.
\<close>

definition handler_getVideoJobStatus ::
  "Env \<Rightarrow> JobStore \<Rightarrow> query \<Rightarrow> js_error + HttpResponse \<times> JobStore" where
  "handler_getVideoJobStatus env store jobIdParam =
     (case jobIdParam of
        Single jobId \<Rightarrow>
          if jobId = [] then Inr (respond 400 (ErrorBody ''Invalid job ID'' None), store)
          else
            (case store jobId of
               None \<Rightarrow> Inr (respond 404 (ErrorBody ''Job not found'' None), store)
             | Some job \<Rightarrow>
                 tryCatch (statusOfJob env store jobId job)
                   (\<lambda>error.
                      case messageOf error of
                        Inl t \<Rightarrow> Inl t
                      | Inr m \<Rightarrow>
                          Inr (respond 500 (ErrorBody ''Failed to check job status'' (Some m)),
                               store)))
      | Absent \<Rightarrow> Inr (respond 400 (ErrorBody ''Invalid job ID'' None), store)
      | Multiple ids \<Rightarrow> Inr (respond 400 (ErrorBody ''Invalid job ID'' None), store))"

text \<open>\<open>jobId\<close> of the request body: \<open>None\<close> when the body has none.\<close>

definition completeVideoJob :: "JobStore \<Rightarrow> string option \<Rightarrow> HttpResponse \<times> JobStore" where
  "completeVideoJob store jobIdField =
     (if \<not> truthy jobIdField
      then (respond 400 (ErrorBody ''Job ID is required'' None), store)
      else
        let jobId = orElse jobIdField [] in
        (case store jobId of
           None \<Rightarrow> (respond 404 (ErrorBody ''Job not found'' None), store)
         | Some job \<Rightarrow>
             if a_status job \<noteq> ''completed''
             then (respond 400
                     (ErrorBody ''Job not completed''
                        (Some (''Job status is '' @ a_status job @ '', not completed''))),
                   store)
             else (respond 200 (CompleteJson
                     \<lparr>r_success = True, r_videoUrl = a_videoUrl job,
                      r_thumbnail = a_thumbnail job, r_jobId = a_id job,
                      r_prompt = a_prompt job, r_aspectRatio = a_aspectRatio job,
                      r_duration = a_duration job, r_tier = a_tier job,
                      r_provider = a_provider job\<rparr>),
                   store(jobId := None))))"

section \<open>Observations\<close>

text \<open>The record a creation stored under the id it returned, if it stored one.\<close>

definition createdJob :: "js_error + CreateResult \<times> Storage \<Rightarrow> Job option" where
  "createdJob outcome =
     (case outcome of Inl e \<Rightarrow> None | Inr (r, st') \<Rightarrow> st' (jobKey (c_jobId r)))"

text \<open>
  Outcomes of the POST to FAL: one that throws \<open>undefined\<close> or \<open>null\<close> into the
  \<open>try\<close> block (the \<open>fetch\<close> rejects with it, or the body of an ok response does), and
  one that does not accept the registration (a rejection, a response that is not ok, or an
  ok response whose body cannot be read) and throws an error object.
\<close>

definition rejectsNullish :: "js_error + 'd Response \<Rightarrow> bool" where
  "rejectsNullish r =
     (case r of
        Inl e \<Rightarrow> e = Nullish
      | Inr response \<Rightarrow> ok response \<and> json response = Inl Nullish)"

definition declined :: "js_error + 'd Response \<Rightarrow> bool" where
  "declined r =
     (case r of
        Inl e \<Rightarrow> e \<noteq> Nullish
      | Inr response \<Rightarrow>
          if ok response then (case json response of Inl e \<Rightarrow> e \<noteq> Nullish | Inr d \<Rightarrow> False)
          else True)"

text \<open>
  The order \<open>queued\<close>, \<open>processing\<close>, then the two terminal statuses, on the four
  status strings.
\<close>

definition rank :: "string \<Rightarrow> nat" where
  "rank s = (if s = ''queued'' then 0 else if s = ''processing'' then 1 else 2)"

text \<open>
  What a caller sees who polls the service once in each of the given worlds, in order:
  the statuses, up to the first poll that throws. The service's poll does not write to
  the storage.
\<close>

fun pollSequence :: "Env list \<Rightarrow> Storage \<Rightarrow> string \<Rightarrow> string list" where
  "pollSequence [] st jobId = []"
| "pollSequence (e # es) st jobId =
     (case getVideoJobStatus e st jobId of
        Inl error \<Rightarrow> []
      | Inr (r, waited) \<Rightarrow> s_status r # pollSequence es st jobId)"

text \<open>
  The same for the HTTP handler, whose poll updates the store: the statuses of the
  answers, up to the first answer that is not a status.
\<close>

fun handlerPollSequence :: "Env list \<Rightarrow> JobStore \<Rightarrow> string \<Rightarrow> string list" where
  "handlerPollSequence [] store jobId = []"
| "handlerPollSequence (e # es) store jobId =
     (case handler_getVideoJobStatus e store (Single jobId) of
        Inl error \<Rightarrow> []
      | Inr (response, store') \<Rightarrow>
          (case payload response of
             StatusJson b \<Rightarrow> b_status b # handlerPollSequence es store' jobId
           | ErrorBody err msg \<Rightarrow> []
           | CompleteJson c \<Rightarrow> []))"


text \<open>
  The condition under which the service's poll sends the status request to FAL: a job
  that is not an image sequence, has the provider \<open>fal\<close>, and a real key is configured.
\<close>

definition consultsProvider :: "Env \<Rightarrow> Storage \<Rightarrow> string \<Rightarrow> bool" where
  "consultsProvider env st jobId =
     (case st (jobKey jobId) of
        None \<Rightarrow> False
      | Some job \<Rightarrow>
          \<not> isImageJob job \<and> j_provider job = ''fal'' \<and> \<not> noRealKey (getApiKey env ''fal''))"

text \<open>
  The status the service's poll reports at time \<open>t\<close> when it does not consult the
  provider: a function of the stored record and the clock.
\<close>

definition timedStatus :: "Storage \<Rightarrow> string \<Rightarrow> int \<Rightarrow> string" where
  "timedStatus st jobId t =
     (case st (jobKey jobId) of
        None \<Rightarrow> ''failed''
      | Some job \<Rightarrow>
          if isImageJob job then
            (if t - j_createdAt job < 5000 then ''processing''
             else (case encodeURIComponent (j_prompt job) of
                     Inl e \<Rightarrow> ''failed''
                   | Inr encoded \<Rightarrow> ''completed''))
          else if j_provider job = ''fal'' then
            (if t - j_createdAt job < 30000 then ''processing'' else ''completed'')
          else ''failed'')"

section \<open>Concrete worlds and stores\<close>

text \<open>
  A browser with working storage at time \<open>t\<close>, the given FAL key, and a network on
  which every request is rejected.
\<close>

definition offline :: "int \<Rightarrow> string option \<Rightarrow> Env" where
  "offline t key =
     \<lparr>now = t, random36 = ''k3x9qz'', FAL_API_KEY = key, PIAPI_API_KEY = None,
      GOOGLE_API_KEY = None, storageFault = (\<lambda>op. None),
      falSubmit = (\<lambda>k body. Inl (JsError ''Failed to fetch'')),
      falStatus = (\<lambda>k url. Inl (JsError ''Failed to fetch'')),
      piapiStatus = (\<lambda>k url. Inl (JsError ''Failed to fetch'')),
      headFetch = (\<lambda>url i. Inl (JsError ''Failed to fetch''))\<rparr>"

text \<open>The same, with every HEAD request answered 200.\<close>

definition reachable :: "int \<Rightarrow> string option \<Rightarrow> Env" where
  "reachable t key =
     (offline t key)\<lparr>headFetch := (\<lambda>url i. Inr \<lparr>ok = True, status = 200, json = Inr ()\<rparr>)\<rparr>"

text \<open>FAL accepts the registration and answers with the given body.\<close>

definition falAccepts :: "int \<Rightarrow> string option \<Rightarrow> FalCreateData \<Rightarrow> Env" where
  "falAccepts t key data =
     (offline t key)\<lparr>falSubmit := (\<lambda>k body. Inr \<lparr>ok = True, status = 200, json = Inr data\<rparr>)\<rparr>"

text \<open>FAL answers the status request with the given body, or with an HTTP error.\<close>

definition falReports :: "int \<Rightarrow> string option \<Rightarrow> StatusData \<Rightarrow> Env" where
  "falReports t key data =
     (offline t key)\<lparr>falStatus := (\<lambda>k url. Inr \<lparr>ok = True, status = 200, json = Inr data\<rparr>)\<rparr>"

definition falErrors :: "int \<Rightarrow> string option \<Rightarrow> nat \<Rightarrow> Env" where
  "falErrors t key c =
     (offline t key)\<lparr>falStatus :=
        (\<lambda>k url. Inr \<lparr>ok = False, status = c, json = Inl (JsError ''Unexpected token'')\<rparr>)\<rparr>"

text \<open>
  FAL accepts a registration only under the key \<open>k\<close> and with the body \<open>body\<close>; any
  other request is rejected.
\<close>

definition falAcceptsOnly :: "int \<Rightarrow> string option \<Rightarrow> string \<Rightarrow> FalRequest \<Rightarrow> FalCreateData \<Rightarrow> Env" where
  "falAcceptsOnly t key k body data =
     (offline t key)\<lparr>falSubmit :=
        (\<lambda>k' b. if k' = k \<and> b = body then Inr \<lparr>ok = True, status = 200, json = Inr data\<rparr>
                 else Inl (JsError ''Failed to fetch''))\<rparr>"

text \<open>FAL answers the registration with an HTTP error.\<close>

definition falDeclines :: "int \<Rightarrow> string option \<Rightarrow> nat \<Rightarrow> Env" where
  "falDeclines t key c =
     (offline t key)\<lparr>falSubmit :=
        (\<lambda>k b. Inr \<lparr>ok = False, status = c, json = Inl (JsError ''Unexpected token'')\<rparr>)\<rparr>"

text \<open>A \<open>fetch\<close> that rejects the registration with \<open>undefined\<close>.\<close>

definition rejectsUndefined :: "int \<Rightarrow> string option \<Rightarrow> Env" where
  "rejectsUndefined t key = (offline t key)\<lparr>falSubmit := (\<lambda>k b. Inl Nullish)\<rparr>"

text \<open>A browser whose storage is full: every write throws.\<close>

definition storageFull :: "int \<Rightarrow> string option \<Rightarrow> Env" where
  "storageFull t key =
     (offline t key)\<lparr>storageFault :=
        (\<lambda>op. if op = SetItem then Some (JsError ''The quota has been exceeded.'') else None)\<rparr>"

text \<open>A browser whose storage throws on every access.\<close>

definition noStorage :: "int \<Rightarrow> Env" where
  "noStorage t =
     (offline t None)\<lparr>storageFault := (\<lambda>op. Some (JsError ''localStorage is not defined''))\<rparr>"

definition liveKey :: "string option" where
  "liveKey = Some ''fal_live_key''"

definition sunset :: "int \<Rightarrow> VideoConfig" where
  "sunset d = \<lparr>prompt = units ''sunset'', aspectRatio = R9x16, duration = d, image = None\<rparr>"

text \<open>
  The storage after \<open>createVideoJob\<close> at time 0: of the free tier, of the pro tier
  with a live key (FAL answering \<open>request_id = req_1\<close>), and of the free tier with a
  prompt that ends in half a surrogate pair.
\<close>

definition imageStore :: Storage where
  "imageStore = [jobKey ''img_0_k3x9qz'' \<mapsto> imageJob (offline 0 None) (sunset 10)]"

definition falStore :: Storage where
  "falStore =
     [jobKey ''job_0_k3x9qz'' \<mapsto>
        falJob (offline 0 liveKey) (sunset 10) Pro \<lparr>request_id = Some ''req_1'', job_id = None\<rparr>]"


definition videoReady :: StatusData where
  "videoReady =
     \<lparr>d_status = Some ''completed'', d_video_url = Some ''https://fal.media/files/req_1.mp4'',
      d_thumbnail_url = None, d_error = None\<rparr>"


text \<open>Jobs of the HTTP handler's store, as its \<open>createVideoJob\<close> builds them.\<close>

definition handlerJob :: "string \<Rightarrow> string \<Rightarrow> ApiJob" where
  "handlerJob provider st =
     \<lparr>a_id = ''job_0_k3x9qz'', a_prompt = units ''sunset'', a_aspectRatio = ''9:16'',
      a_duration = 10, a_tier = ''pro'', a_provider = provider, a_status = st,
      a_createdAt = 0, a_externalJobId = Some ''req_1'', a_error = None,
      a_videoUrl = None, a_thumbnail = None\<rparr>"

definition handlerStore :: "string \<Rightarrow> string \<Rightarrow> JobStore" where
  "handlerStore provider st = [''job_0_k3x9qz'' \<mapsto> handlerJob provider st]"

section \<open>Facts about the operations\<close>

subsection \<open>Helpers\<close>

lemma messageOr_simps:
  "messageOr (JsError m) d = Inr (if m = [] then d else m)"
  "messageOr Nullish d = Inl typeError"
  by (simp_all add: messageOr_def messageOf_def)

lemma typeError_object: "typeError \<noteq> Nullish" and uriError_object: "uriError \<noteq> Nullish"
  by (simp_all add: typeError_def uriError_def)

lemma encodeURIComponent_throws: "encodeURIComponent cs = Inl e \<Longrightarrow> e = uriError"
  by (induction cs rule: encodeURIComponent.induct)
     (auto simp: prepend_def split: if_splits sum.splits list.splits)

lemma headLoop_none: "(\<And>j. \<not> responded (probe j)) \<Longrightarrow> headLoop probe i = None"
proof (induction probe i rule: headLoop.induct)
  case (1 probe i)
  then show ?case by (simp add: headLoop.simps [of probe i])
qed

lemma headLoop_first: "responded (probe i) \<Longrightarrow> i < 40 \<Longrightarrow> headLoop probe i = Some i"
  by (simp add: headLoop.simps [of probe i])



subsection \<open>The branches of \<open>createVideoJob\<close>\<close>

lemma createVideoJob_image:
  assumes "storageFault env SetItem = None"
    and "tier = Free \<or> noRealKey (getApiKey env ''fal'')"
  shows "createVideoJob env st config tier =
           Inr (\<lparr>c_jobId = newJobId env ''img_'', c_status = ''queued'', c_error = None,
                 c_isImageSequence = True\<rparr>,
                st(jobKey (newJobId env ''img_'') \<mapsto> imageJob env config))"
  using assms
  by (auto simp: createVideoJob_def createVideoJob_in_def createVideoJob_try_def readApiKey_def createImageJob_def setItem_def
      tryCatch_def Let_def)

lemma createVideoJob_fal:
  assumes "storageFault env SetItem = None" and "tier \<noteq> Free"
    and "\<not> noRealKey (getApiKey env ''fal'')"
    and "falSubmit env (getApiKey env ''fal'') (falRequest config tier) = Inr response"
    and "ok response" and "json response = Inr data"
  shows "createVideoJob env st config tier =
           Inr (\<lparr>c_jobId = newJobId env ''job_'', c_status = ''queued'', c_error = None,
                 c_isImageSequence = False\<rparr>,
                st(jobKey (newJobId env ''job_'') \<mapsto> falJob env config tier data))"
  using assms
  by (auto simp: createVideoJob_def createVideoJob_in_def createVideoJob_try_def readApiKey_def setItem_def tryCatch_def Let_def)

text \<open>What the \<open>try\<close> block throws, and what its \<open>catch\<close> makes of it.\<close>

lemma createImageJob_throws:
  "createImageJob env st config = Inl e \<Longrightarrow> storageFault env SetItem = Some e"
  by (auto simp: createImageJob_def setItem_def Let_def split: option.splits)

lemma createVideoJob_try_throws:
  assumes "createVideoJob_try rt env st config tier = Inl e"
    and "storageFault env SetItem \<noteq> Some Nullish"
    and "\<not> rejectsNullish (falSubmit env (getApiKey env ''fal'') (falRequest config tier))"
  shows "e \<noteq> Nullish"
proof (cases "tier = Free \<or> (rt = WithProcess \<and> noRealKey (getApiKey env ''fal''))")
  case True
  with assms(1) have "createImageJob env st config = Inl e"
    by (auto simp: createVideoJob_try_def readApiKey_def Let_def split: if_splits)
  with assms(2) show ?thesis
    by (auto dest: createImageJob_throws)
next
  case False
  with assms show ?thesis
    by (cases rt)
       (auto simp: createVideoJob_try_def readApiKey_def rejectsNullish_def setItem_def Let_def
          split: sum.splits if_splits option.splits)
qed

lemma createVideoJob_caught:
  "createVideoJob_try rt env st config tier = Inl (JsError m) \<Longrightarrow>
   createVideoJob_in rt env st config tier =
     Inr (\<lparr>c_jobId = [], c_status = ''failed'',
           c_error = Some (if m = [] then ''Failed to create video job'' else m),
           c_isImageSequence = False\<rparr>, st)"
  by (simp add: createVideoJob_in_def tryCatch_def messageOr_simps)

lemma createVideoJob_rethrows:
  "createVideoJob_try rt env st config tier = Inl Nullish \<Longrightarrow>
   createVideoJob_in rt env st config tier = Inl typeError"
  by (simp add: createVideoJob_in_def tryCatch_def messageOr_simps)

lemma createVideoJob_passes:
  "createVideoJob_try rt env st config tier = Inr v \<Longrightarrow>
   createVideoJob_in rt env st config tier = Inr v"
  by (simp add: createVideoJob_in_def tryCatch_def)

lemma createVideoJob_try_declined:
  assumes "tier \<noteq> Free" and "\<not> noRealKey (getApiKey env ''fal'')"
    and "declined (falSubmit env (getApiKey env ''fal'') (falRequest config tier))"
  shows "\<exists>msg. createVideoJob_try WithProcess env st config tier = Inl (JsError msg)"
proof (cases "falSubmit env (getApiKey env ''fal'') (falRequest config tier)")
  case (Inl e)
  with assms(3) obtain m where "e = JsError m"
    by (cases e) (simp_all add: declined_def)
  with Inl assms(1,2) show ?thesis
    by (simp add: createVideoJob_try_def readApiKey_def Let_def)
next
  case (Inr response)
  show ?thesis
  proof (cases "ok response")
    case False
    with Inr assms(1,2) show ?thesis
      by (simp add: createVideoJob_try_def readApiKey_def Let_def)
  next
    case True
    with Inr assms(3) obtain m where "json response = Inl (JsError m)"
      by (cases "json response"; cases "projl (json response)")
         (auto simp: declined_def)
    with True Inr assms(1,2) show ?thesis
      by (simp add: createVideoJob_try_def readApiKey_def Let_def)
  qed
qed

text \<open>The two routes in a runtime.\<close>

lemma createVideoJob_in_image:
  assumes "storageFault env SetItem = None"
    and "tier = Free \<or> (rt = WithProcess \<and> noRealKey (getApiKey env ''fal''))"
  shows "createVideoJob_in rt env st config tier =
           Inr (\<lparr>c_jobId = newJobId env ''img_'', c_status = ''queued'', c_error = None,
                 c_isImageSequence = True\<rparr>,
                st(jobKey (newJobId env ''img_'') \<mapsto> imageJob env config))"
  using assms
  by (auto simp: createVideoJob_in_def createVideoJob_try_def readApiKey_def createImageJob_def
      setItem_def tryCatch_def Let_def)

lemma createVideoJob_in_image_fails:
  assumes "storageFault env SetItem = Some (JsError m)"
    and "tier = Free \<or> (rt = WithProcess \<and> noRealKey (getApiKey env ''fal''))"
  shows "createVideoJob_in rt env st config tier =
           Inr (\<lparr>c_jobId = [], c_status = ''failed'',
                 c_error = Some (if m = [] then ''Failed to create video job'' else m),
                 c_isImageSequence = False\<rparr>, st)"
proof -
  from assms have "createVideoJob_try rt env st config tier = Inl (JsError m)"
    by (auto simp: createVideoJob_try_def readApiKey_def createImageJob_def setItem_def Let_def)
  then show ?thesis by (rule createVideoJob_caught)
qed

subsection \<open>The branches of \<open>getVideoJobStatus\<close>\<close>

lemma poll_missing:
  assumes "storageFault env GetItem = None" and "st (jobKey jobId) = None"
  shows "getVideoJobStatus env st jobId = Inr (failedWith ''Job not found'', 0)"
  using assms
  by (simp add: getVideoJobStatus_def getVideoJobStatus_in_def getVideoJobStatus_try_def readApiKey_def getItem_def tryCatch_def)

lemma poll_image_early:
  assumes "storageFault env GetItem = None" and "st (jobKey jobId) = Some job"
    and "isImageJob job" and "now env - j_createdAt job < 5000"
  shows "getVideoJobStatus env st jobId = Inr (statusOnly ''processing'', 0)"
  using assms
  by (simp add: getVideoJobStatus_def getVideoJobStatus_in_def getVideoJobStatus_try_def readApiKey_def getItem_def tryCatch_def)

lemma poll_image_video:
  assumes "storageFault env GetItem = None" and "st (jobKey jobId) = Some job"
    and "isImageJob job" and "5000 \<le> now env - j_createdAt job"
    and "encodeURIComponent (j_prompt job) = Inr encoded"
    and "headLoop (headFetch env (videoUrlOf job encoded)) 0 = Some i"
  shows "getVideoJobStatus env st jobId =
           Inr (videoReadyResult (videoUrlOf job encoded), 5000 * i)"
  using assms
  by (simp add: getVideoJobStatus_def getVideoJobStatus_in_def getVideoJobStatus_try_def
      readApiKey_def getItem_def tryCatch_def imageSequenceResult_def messageOr_simps uriError_def)

lemma poll_image_fallback:
  assumes "storageFault env GetItem = None" and "st (jobKey jobId) = Some job"
    and "isImageJob job" and "5000 \<le> now env - j_createdAt job"
    and "encodeURIComponent (j_prompt job) = Inr encoded"
    and "headLoop (headFetch env (videoUrlOf job encoded)) 0 = None"
  shows "getVideoJobStatus env st jobId =
           Inr (imageFallbackResult (imageUrlOf job encoded), 200000)"
  using assms
  by (simp add: getVideoJobStatus_def getVideoJobStatus_in_def getVideoJobStatus_try_def
      readApiKey_def getItem_def tryCatch_def imageSequenceResult_def messageOr_simps uriError_def)

lemma poll_image_malformed:
  assumes "storageFault env GetItem = None" and "st (jobKey jobId) = Some job"
    and "isImageJob job" and "5000 \<le> now env - j_createdAt job"
    and "encodeURIComponent (j_prompt job) = Inl e"
  shows "getVideoJobStatus env st jobId = Inr (failedWith ''URI malformed'', 0)"
  using assms encodeURIComponent_throws [of "j_prompt job" e]
  by (simp add: getVideoJobStatus_def getVideoJobStatus_in_def getVideoJobStatus_try_def
      readApiKey_def getItem_def tryCatch_def imageSequenceResult_def messageOr_simps uriError_def)

lemma poll_simulated:
  assumes "storageFault env GetItem = None" and "st (jobKey jobId) = Some job"
    and "\<not> isImageJob job" and "j_provider job = ''fal''"
    and "noRealKey (getApiKey env ''fal'')"
  shows "getVideoJobStatus env st jobId = Inr (simulated env job jobId, 0)"
  using assms
  by (simp add: getVideoJobStatus_def getVideoJobStatus_in_def getVideoJobStatus_try_def readApiKey_def getItem_def tryCatch_def)

lemma poll_relayed:
  assumes "storageFault env GetItem = None" and "st (jobKey jobId) = Some job"
    and "\<not> isImageJob job" and "j_provider job = ''fal''"
    and "\<not> noRealKey (getApiKey env ''fal'')"
    and "checkFal env job (getApiKey env ''fal'') = Inr r"
  shows "getVideoJobStatus env st jobId = Inr (r, 0)"
  using assms
  by (simp add: getVideoJobStatus_def getVideoJobStatus_in_def getVideoJobStatus_try_def readApiKey_def getItem_def tryCatch_def)

lemma poll_fallback:
  assumes "storageFault env GetItem = None" and "st (jobKey jobId) = Some job"
    and "\<not> isImageJob job" and "j_provider job = ''fal''"
    and "\<not> noRealKey (getApiKey env ''fal'')"
    and "checkFal env job (getApiKey env ''fal'') = Inl e"
  shows "getVideoJobStatus env st jobId = Inr (simulated env job jobId, 0)"
  using assms
  by (simp add: getVideoJobStatus_def getVideoJobStatus_in_def getVideoJobStatus_try_def readApiKey_def getItem_def tryCatch_def)

lemma poll_unknown_provider:
  assumes "storageFault env GetItem = None" and "st (jobKey jobId) = Some job"
    and "\<not> isImageJob job" and "j_provider job \<noteq> ''fal''"
  shows "getVideoJobStatus env st jobId = Inr (failedWith ''Unknown provider'', 0)"
  using assms
  by (simp add: getVideoJobStatus_def getVideoJobStatus_in_def getVideoJobStatus_try_def readApiKey_def getItem_def tryCatch_def)

text \<open>What the \<open>try\<close> block of the poll throws, and what its \<open>catch\<close> makes of it.\<close>

lemma imageSequenceResult_throws: "imageSequenceResult env job = Inl e \<Longrightarrow> e = uriError"
  by (auto simp: imageSequenceResult_def Let_def split: sum.splits option.splits
      dest: encodeURIComponent_throws)

lemma poll_try_throws:
  assumes "getVideoJobStatus_try rt env st jobId = Inl e"
    and "storageFault env GetItem \<noteq> Some Nullish"
  shows "e \<noteq> Nullish"
  using assms
  by (cases rt)
     (auto simp: getVideoJobStatus_try_def getItem_def readApiKey_def uriError_def Let_def
        split: option.splits sum.splits if_splits dest!: imageSequenceResult_throws)

lemma poll_caught:
  "getVideoJobStatus_try rt env st jobId = Inl (JsError m) \<Longrightarrow>
   getVideoJobStatus_in rt env st jobId =
     Inr (failedWith (if m = [] then ''Failed to check job status'' else m), 0)"
  by (simp add: getVideoJobStatus_in_def tryCatch_def messageOr_simps)

lemma poll_passes:
  "getVideoJobStatus_try rt env st jobId = Inr v \<Longrightarrow> getVideoJobStatus_in rt env st jobId = Inr v"
  by (simp add: getVideoJobStatus_in_def tryCatch_def)

lemma poll_rejects: "getVideoJobStatus_in rt env st jobId = Inl e \<Longrightarrow> e = typeError"
  by (cases "getVideoJobStatus_try rt env st jobId")
     (auto simp: getVideoJobStatus_in_def tryCatch_def messageOr_def messageOf_def
        split: js_error.splits)

subsection \<open>The branches of \<open>completeVideoGeneration\<close>\<close>

lemma finalize_not_completed:
  assumes "getVideoJobStatus env st jobId = Inr (r, w)" and "s_status r \<noteq> ''completed''"
  shows "completeVideoGeneration env st jobId tier =
           Inr (notSucceeded (''Job not completed. Status: '' @ s_status r), st)"
  using assms
  by (simp add: completeVideoGeneration_def completeVideoGeneration_in_def completeVideoGeneration_try_def getVideoJobStatus_def tryCatch_def)

lemma finalize_completed:
  assumes "getVideoJobStatus env st jobId = Inr (r, w)" and "s_status r = ''completed''"
    and "storageFault env RemoveItem = None"
  shows "completeVideoGeneration env st jobId tier =
           Inr (\<lparr>g_success = True, g_videoUrl = s_videoUrl r, g_thumbnail = s_thumbnail r,
                 g_error = None, g_tier = Some tier, g_hasAdCard = Some (tier = Free),
                 g_jobId = Some jobId\<rparr>, st(jobKey jobId := None))"
  using assms
  by (simp add: completeVideoGeneration_def completeVideoGeneration_in_def completeVideoGeneration_try_def getVideoJobStatus_def tryCatch_def
      removeItem_def)

text \<open>What the \<open>try\<close> block of finalize throws, and what its \<open>catch\<close> makes of it.\<close>

lemma finalize_try_throws:
  assumes "completeVideoGeneration_try rt env st jobId tier = Inl e"
    and "storageFault env RemoveItem \<noteq> Some Nullish"
  shows "e \<noteq> Nullish"
proof (cases "getVideoJobStatus_in rt env st jobId")
  case (Inl e')
  with assms(1) poll_rejects [OF Inl] show ?thesis
    by (simp add: completeVideoGeneration_try_def typeError_object)
next
  case (Inr v)
  with assms show ?thesis
    by (auto simp: completeVideoGeneration_try_def removeItem_def
        split: prod.splits if_splits option.splits)
qed

lemma finalize_caught:
  "completeVideoGeneration_try rt env st jobId tier = Inl (JsError m) \<Longrightarrow>
   completeVideoGeneration_in rt env st jobId tier =
     Inr (notSucceeded (if m = [] then ''Failed to complete video generation'' else m), st)"
  by (simp add: completeVideoGeneration_in_def tryCatch_def messageOr_simps)

lemma finalize_passes:
  "completeVideoGeneration_try rt env st jobId tier = Inr v \<Longrightarrow>
   completeVideoGeneration_in rt env st jobId tier = Inr v"
  by (simp add: completeVideoGeneration_in_def tryCatch_def)

subsection \<open>The branches of the HTTP handler\<close>

lemma handler_missing:
  assumes "jobId \<noteq> []" and "store jobId = None"
  shows "handler_getVideoJobStatus env store (Single jobId)
           = Inr (respond 404 (ErrorBody ''Job not found'' None), store)"
  using assms by (simp add: handler_getVideoJobStatus_def)

lemma handler_fal_early:
  assumes "jobId \<noteq> []" and "store jobId = Some job" and "a_provider job = ''fal''"
    and "now env - a_createdAt job < 30000"
  shows "handler_getVideoJobStatus env store (Single jobId)
           = Inr (respond 200 (StatusJson (statusData job ''processing'')), store)"
  using assms by (simp add: handler_getVideoJobStatus_def statusOfJob_def tryCatch_def)

lemma handler_fal_late:
  assumes "jobId \<noteq> []" and "store jobId = Some job" and "a_provider job = ''fal''"
    and "30000 \<le> now env - a_createdAt job"
  shows "handler_getVideoJobStatus env store (Single jobId)
           = Inr (respond 200 (StatusJson
                    \<lparr>b_status = ''completed'', b_jobId = a_id job,
                     b_videoUrl = Some ''https://sample-videos.com/zip/10/mp4/SampleVideo_1280x720_1mb.mp4'',
                     b_thumbnail = Some (''https://picsum.photos/320/180?random='' @ jobId),
                     b_error = None\<rparr>),
                  store(jobId \<mapsto> job\<lparr>a_status := ''completed''\<rparr>))"
  using assms by (simp add: handler_getVideoJobStatus_def statusOfJob_def tryCatch_def)

lemma complete_missing:
  assumes "jobId \<noteq> []" and "store jobId = None"
  shows "completeVideoJob store (Some jobId)
           = (respond 404 (ErrorBody ''Job not found'' None), store)"
  using assms by (simp add: completeVideoJob_def truthy_def orElse_def)

lemma complete_not_completed:
  assumes "jobId \<noteq> []" and "store jobId = Some job" and "a_status job \<noteq> ''completed''"
  shows "completeVideoJob store (Some jobId)
           = (respond 400 (ErrorBody ''Job not completed''
                 (Some (''Job status is '' @ a_status job @ '', not completed''))), store)"
  using assms by (simp add: completeVideoJob_def truthy_def orElse_def)


subsection \<open>Polls decided by the clock\<close>

lemma poll_timed:
  assumes "storageFault env GetItem = None" and "\<not> consultsProvider env st jobId"
  shows "\<exists>r w. getVideoJobStatus env st jobId = Inr (r, w)
           \<and> s_status r = timedStatus st jobId (now env)"
proof (cases "st (jobKey jobId)")
  case None
  with assms show ?thesis
    by (simp add: poll_missing timedStatus_def failedWith_def)
next
  case (Some job)
  show ?thesis
  proof (cases "isImageJob job")
    case True
    show ?thesis
    proof (cases "now env - j_createdAt job < 5000")
      case early: True
      with assms Some True show ?thesis
        by (simp add: poll_image_early timedStatus_def statusOnly_def)
    next
      case late: False
      show ?thesis
      proof (cases "encodeURIComponent (j_prompt job)")
        case (Inl e)
        with assms Some True late show ?thesis
          by (simp add: poll_image_malformed [where e = e] timedStatus_def failedWith_def)
      next
        case (Inr encoded)
        with assms Some True late show ?thesis
          by (cases "headLoop (headFetch env (videoUrlOf job encoded)) 0")
             (simp_all add: poll_image_video poll_image_fallback timedStatus_def
                videoReadyResult_def imageFallbackResult_def)
      qed
    qed
  next
    case False
    show ?thesis
    proof (cases "j_provider job = ''fal''")
      case True
      with assms Some False have "noRealKey (getApiKey env ''fal'')"
        by (simp add: consultsProvider_def)
      with assms Some False True show ?thesis
        by (simp add: poll_simulated timedStatus_def simulated_def statusOnly_def)
    next
      case other: False
      with assms Some False show ?thesis
        by (simp add: poll_unknown_provider timedStatus_def failedWith_def)
    qed
  qed
qed

lemma timedStatus_forward:
  "t \<le> t' \<Longrightarrow> rank (timedStatus st jobId t) \<le> rank (timedStatus st jobId t')"
  by (auto simp: timedStatus_def rank_def split: option.splits sum.splits)

lemma timedStatus_range:
  "timedStatus st jobId t \<in> {''processing'', ''completed'', ''failed''}"
  by (auto simp: timedStatus_def split: option.splits sum.splits)

lemma pollSequence_timed:
  assumes "\<forall>e \<in> set es. storageFault e GetItem = None \<and> \<not> consultsProvider e st jobId"
  shows "pollSequence es st jobId = map (\<lambda>e. timedStatus st jobId (now e)) es"
  using assms
proof (induction es)
  case Nil
  then show ?case by simp
next
  case (Cons e es)
  then obtain r w where "getVideoJobStatus e st jobId = Inr (r, w)"
    and "s_status r = timedStatus st jobId (now e)"
    using poll_timed [of e st jobId] by auto
  with Cons show ?case by simp
qed

lemma handler_fal_sequence:
  assumes "jobId \<noteq> []" and "store jobId = Some job" and "a_provider job = ''fal''"
  shows "handlerPollSequence es store jobId
           = map (\<lambda>e. if now e - a_createdAt job < 30000 then ''processing'' else ''completed'') es"
  using assms
proof (induction es arbitrary: store job)
  case Nil
  then show ?case by simp
next
  case (Cons e es)
  show ?case
  proof (cases "now e - a_createdAt job < 30000")
    case True
    with Cons.prems have "handler_getVideoJobStatus e store (Single jobId)
        = Inr (respond 200 (StatusJson (statusData job ''processing'')), store)"
      by (intro handler_fal_early) auto
    moreover have "handlerPollSequence es store jobId
        = map (\<lambda>e. if now e - a_createdAt job < 30000 then ''processing'' else ''completed'') es"
      using Cons.prems by (intro Cons.IH) auto
    ultimately show ?thesis
      using True by (simp add: respond_def statusData_def)
  next
    case False
    let ?job = "job\<lparr>a_status := ''completed''\<rparr>"
    let ?store = "store(jobId \<mapsto> ?job)"
    from False Cons.prems have "handler_getVideoJobStatus e store (Single jobId)
        = Inr (respond 200 (StatusJson
                 \<lparr>b_status = ''completed'', b_jobId = a_id job,
                  b_videoUrl = Some ''https://sample-videos.com/zip/10/mp4/SampleVideo_1280x720_1mb.mp4'',
                  b_thumbnail = Some (''https://picsum.photos/320/180?random='' @ jobId),
                  b_error = None\<rparr>), ?store)"
      by (intro handler_fal_late) auto
    moreover have "handlerPollSequence es ?store jobId
        = map (\<lambda>e. if now e - a_createdAt ?job < 30000 then ''processing'' else ''completed'') es"
      using Cons.prems by (intro Cons.IH) auto
    ultimately show ?thesis
      using False by (simp add: respond_def)
  qed
qed

lemma forward_by_time:
  assumes "sorted_wrt (\<lambda>a b. now a \<le> now b) es"
    and "\<And>t t'. t \<le> t' \<Longrightarrow> rank (f t) \<le> rank (f t')"
  shows "sorted_wrt (\<lambda>a b. rank a \<le> rank b) (map (\<lambda>e. f (now e)) es)"
  using assms by (simp add: sorted_wrt_map sorted_wrt_mono_rel [where P = "\<lambda>a b. now a \<le> now b"])

section \<open>Facts about the concrete worlds and stores\<close>

lemma offline_simps:
  "now (offline t key) = t" "random36 (offline t key) = ''k3x9qz''"
  "FAL_API_KEY (offline t key) = key" "storageFault (offline t key) op = None"
  "falSubmit (offline t key) k body = Inl (JsError ''Failed to fetch'')"
  "falStatus (offline t key) k url = Inl (JsError ''Failed to fetch'')"
  "headFetch (offline t key) url i = Inl (JsError ''Failed to fetch'')"
  by (simp_all add: offline_def)

lemma reachable_simps:
  "now (reachable t key) = t" "FAL_API_KEY (reachable t key) = key"
  "storageFault (reachable t key) op = None"
  "headFetch (reachable t key) url i = Inr \<lparr>ok = True, status = 200, json = Inr ()\<rparr>"
  by (simp_all add: reachable_def offline_def)

lemma falAccepts_simps:
  "now (falAccepts t key data) = t" "random36 (falAccepts t key data) = ''k3x9qz''"
  "FAL_API_KEY (falAccepts t key data) = key"
  "storageFault (falAccepts t key data) op = None"
  "falSubmit (falAccepts t key data) k body = Inr \<lparr>ok = True, status = 200, json = Inr data\<rparr>"
  by (simp_all add: falAccepts_def offline_def)

lemma falReports_simps:
  "now (falReports t key data) = t" "FAL_API_KEY (falReports t key data) = key"
  "storageFault (falReports t key data) op = None"
  "falStatus (falReports t key data) k url = Inr \<lparr>ok = True, status = 200, json = Inr data\<rparr>"
  by (simp_all add: falReports_def offline_def)

lemma falErrors_simps:
  "now (falErrors t key c) = t" "FAL_API_KEY (falErrors t key c) = key"
  "storageFault (falErrors t key c) op = None"
  "falStatus (falErrors t key c) k url =
     Inr \<lparr>ok = False, status = c, json = Inl (JsError ''Unexpected token'')\<rparr>"
  by (simp_all add: falErrors_def offline_def)

lemma falAcceptsOnly_simps:
  "now (falAcceptsOnly t key k body data) = t"
  "random36 (falAcceptsOnly t key k body data) = ''k3x9qz''"
  "FAL_API_KEY (falAcceptsOnly t key k body data) = key"
  "storageFault (falAcceptsOnly t key k body data) op = None"
  "falSubmit (falAcceptsOnly t key k body data) k' b =
     (if k' = k \<and> b = body then Inr \<lparr>ok = True, status = 200, json = Inr data\<rparr>
      else Inl (JsError ''Failed to fetch''))"
  by (simp_all add: falAcceptsOnly_def offline_def)

lemma falDeclines_simps:
  "now (falDeclines t key c) = t" "FAL_API_KEY (falDeclines t key c) = key"
  "storageFault (falDeclines t key c) op = None"
  "falSubmit (falDeclines t key c) k b =
     Inr \<lparr>ok = False, status = c, json = Inl (JsError ''Unexpected token'')\<rparr>"
  by (simp_all add: falDeclines_def offline_def)

lemma rejectsUndefined_simps:
  "now (rejectsUndefined t key) = t" "FAL_API_KEY (rejectsUndefined t key) = key"
  "storageFault (rejectsUndefined t key) op = None"
  "falSubmit (rejectsUndefined t key) k b = Inl Nullish"
  by (simp_all add: rejectsUndefined_def offline_def)

lemma storageFull_simps:
  "now (storageFull t key) = t" "FAL_API_KEY (storageFull t key) = key"
  "storageFault (storageFull t key) SetItem = Some (JsError ''The quota has been exceeded.'')"
  "storageFault (storageFull t key) GetItem = None"
  "storageFault (storageFull t key) RemoveItem = None"
  by (simp_all add: storageFull_def offline_def)

lemma noStorage_simps:
  "now (noStorage t) = t"
  "storageFault (noStorage t) op = Some (JsError ''localStorage is not defined'')"
  by (simp_all add: noStorage_def offline_def)

lemma liveKey_real: "FAL_API_KEY env = liveKey \<Longrightarrow> \<not> noRealKey (getApiKey env ''fal'')"
  and liveKey_value: "FAL_API_KEY env = liveKey \<Longrightarrow> getApiKey env ''fal'' = ''fal_live_key''"
  by (simp_all add: noRealKey_def getApiKey_def orElse_def liveKey_def startsWith_def)

lemma live_key_real: "\<not> noRealKey ''fal_live_key''"
  by (simp add: noRealKey_def startsWith_def)

lemma missing_key: "FAL_API_KEY env = None \<Longrightarrow> noRealKey (getApiKey env ''fal'')"
  by (simp add: noRealKey_def getApiKey_def orElse_def startsWith_def)

lemma toString_values:
  "toString 0 = ''0''" "toString 10 = ''10''" "toString 500 = ''500''" "toString 503 = ''503''"
  "toString 576 = ''576''" "toString 1024 = ''1024''"
  by (simp_all add: toString_def digits.simps)

lemma sunset_encoded: "encodeURIComponent (units ''sunset'') = Inr ''sunset''"
  by (simp add: units_def unreserved_def prepend_def char_of_def bit_0)


lemma imageStore_job:
  "imageStore (jobKey ''img_0_k3x9qz'') = Some (imageJob (offline 0 None) (sunset 10))"
  by (simp add: imageStore_def)

lemma imageJob_fields:
  "isImageJob (imageJob env config)" "j_createdAt (imageJob env config) = now env"
  "j_prompt (imageJob env config) = prompt config"
  "j_duration (imageJob env config) = min (duration config) 16"
  "j_falJobId (imageJob env config) = None"
  by (simp_all add: imageJob_def isImageJob_def)

lemma falJob_fields:
  "\<not> isImageJob (falJob env config tier data)" "j_provider (falJob env config tier data) = ''fal''"
  "j_createdAt (falJob env config tier data) = now env"
  "j_duration (falJob env config tier data) = min (duration config) (if tier = Pro then 30 else 15)"
  "j_falJobId (falJob env config tier data) =
     Some (orElse (request_id data) (orElse (job_id data) (newJobId env ''job_'')))"
  by (simp_all add: falJob_def isImageJob_def Let_def)

lemma sunset_fields: "prompt (sunset d) = units ''sunset''" "duration (sunset d) = d"
  "aspectRatio (sunset d) = R9x16"
  by (simp_all add: sunset_def)

lemma sunset_urls:
  "videoUrlOf (imageJob (offline 0 None) (sunset 10)) ''sunset'' =
     ''https://image.pollinations.ai/prompt/sunset?width=576&height=1024&duration=10&format=mp4&nologo=true''"
  "imageUrlOf (imageJob (offline 0 None) (sunset 10)) ''sunset'' =
     ''https://image.pollinations.ai/prompt/sunset?width=576&height=1024&nologo=true''"
  by (simp_all add: videoUrlOf_def imageUrlOf_def width_def height_def imageJob_def sunset_def
      toString_values)

lemma newJobId_at_0:
  "newJobId (offline 0 key) pre = pre @ ''0_k3x9qz''"
  "newJobId (falAccepts 0 key data) pre = pre @ ''0_k3x9qz''"
  by (simp_all add: newJobId_def offline_simps falAccepts_simps toString_values)

lemma sunset_thumbnail:
  "replaceFirst
     ''https://image.pollinations.ai/prompt/sunset?width=576&height=1024&duration=10&format=mp4&nologo=true''
     ''.mp4'' ''.jpg''
   = ''https://image.pollinations.ai/prompt/sunset?width=576&height=1024&duration=10&format=mp4&nologo=true''"
  by simp

lemma handlerStore_job:
  "handlerStore provider st ''job_0_k3x9qz'' = Some (handlerJob provider st)"
  "a_provider (handlerJob provider st) = provider" "a_status (handlerJob provider st) = st"
  "a_createdAt (handlerJob provider st) = 0" "a_id (handlerJob provider st) = ''job_0_k3x9qz''"
  "a_videoUrl (handlerJob provider st) = None"
  by (simp_all add: handlerStore_def handlerJob_def)

subsection \<open>Polls of the image-sequence job\<close>

lemma image_poll_early:
  assumes "t < 5000"
  shows "getVideoJobStatus (offline t key) imageStore ''img_0_k3x9qz''
           = Inr (statusOnly ''processing'', 0)"
  using assms
  by (intro poll_image_early [where st = imageStore and jobId = "''img_0_k3x9qz''"
        and job = "imageJob (offline 0 None) (sunset 10)"])
     (simp_all add: imageStore_job offline_simps imageJob_fields)

lemma image_poll_reachable:
  assumes "5000 \<le> t"
  shows "getVideoJobStatus (reachable t key) imageStore ''img_0_k3x9qz'' =
     Inr (\<lparr>s_status = ''completed'',
           s_videoUrl = Some ''https://image.pollinations.ai/prompt/sunset?width=576&height=1024&duration=10&format=mp4&nologo=true'',
           s_thumbnail = Some ''https://image.pollinations.ai/prompt/sunset?width=576&height=1024&duration=10&format=mp4&nologo=true'',
           s_error = None, s_isImageSequence = True\<rparr>, 0)"
proof -
  have "getVideoJobStatus (reachable t key) imageStore ''img_0_k3x9qz'' =
      Inr (videoReadyResult (videoUrlOf (imageJob (offline 0 None) (sunset 10)) ''sunset''), 5000 * 0)"
    using assms
    by (intro poll_image_video [where st = imageStore and jobId = "''img_0_k3x9qz''"
        and job = "imageJob (offline 0 None) (sunset 10)"])
       (simp_all add: imageStore_job reachable_simps offline_simps imageJob_fields sunset_fields sunset_encoded
          headLoop_first responded_def)
  then show ?thesis
    by (simp add: videoReadyResult_def sunset_urls sunset_thumbnail)
qed

lemma image_poll_offline:
  assumes "5000 \<le> t"
  shows "getVideoJobStatus (offline t key) imageStore ''img_0_k3x9qz'' =
     Inr (\<lparr>s_status = ''completed'',
           s_videoUrl = Some ''https://image.pollinations.ai/prompt/sunset?width=576&height=1024&nologo=true'',
           s_thumbnail = Some ''https://image.pollinations.ai/prompt/sunset?width=576&height=1024&nologo=true'',
           s_error = Some ''Video generation timed out, using image instead'',
           s_isImageSequence = True\<rparr>, 200000)"
proof -
  have "getVideoJobStatus (offline t key) imageStore ''img_0_k3x9qz'' =
      Inr (imageFallbackResult (imageUrlOf (imageJob (offline 0 None) (sunset 10)) ''sunset''), 200000)"
    using assms
    by (intro poll_image_fallback [where st = imageStore and jobId = "''img_0_k3x9qz''"
        and job = "imageJob (offline 0 None) (sunset 10)"])
       (simp_all add: imageStore_job offline_simps imageJob_fields sunset_fields sunset_encoded
          headLoop_none responded_def)
  then show ?thesis
    by (simp add: imageFallbackResult_def sunset_urls)
qed


subsection \<open>Polls of the FAL job\<close>

lemma falStore_job:
  "falStore (jobKey ''job_0_k3x9qz'')
     = Some (falJob (offline 0 liveKey) (sunset 10) Pro \<lparr>request_id = Some ''req_1'', job_id = None\<rparr>)"
  by (simp add: falStore_def)

lemma fal_poll_reports:
  "getVideoJobStatus (falReports t liveKey data) falStore ''job_0_k3x9qz''
     = Inr (relayStatus data, 0)"
  by (intro poll_relayed [where job = "falJob (offline 0 liveKey) (sunset 10) Pro
          \<lparr>request_id = Some ''req_1'', job_id = None\<rparr>"])
     (simp_all add: falStore_job falJob_fields falReports_simps liveKey_real checkFal_def)

lemma fal_check_rejected:
  "checkFal (offline t liveKey) job ''fal_live_key'' = Inl (JsError ''Failed to fetch'')"
  by (simp add: checkFal_def offline_simps)

lemma fal_check_error:
  "checkFal (falErrors t liveKey 500) job ''fal_live_key'' = Inl (JsError ''FAL API error: 500'')"
  by (simp add: checkFal_def falErrors_simps toString_values)

lemma fal_poll_rejected:
  "getVideoJobStatus (offline t liveKey) falStore ''job_0_k3x9qz''
     = Inr (simulated (offline t liveKey)
              (falJob (offline 0 liveKey) (sunset 10) Pro \<lparr>request_id = Some ''req_1'', job_id = None\<rparr>)
              ''job_0_k3x9qz'', 0)"
  by (intro poll_fallback [where e = "JsError ''Failed to fetch''"])
     (simp_all add: falStore_job falJob_fields offline_simps live_key_real liveKey_value
        fal_check_rejected)

lemma fal_poll_error:
  "getVideoJobStatus (falErrors t liveKey 500) falStore ''job_0_k3x9qz''
     = Inr (simulated (falErrors t liveKey 500)
              (falJob (offline 0 liveKey) (sunset 10) Pro \<lparr>request_id = Some ''req_1'', job_id = None\<rparr>)
              ''job_0_k3x9qz'', 0)"
  by (intro poll_fallback [where e = "JsError ''FAL API error: 500''"])
     (simp_all add: falStore_job falJob_fields falErrors_simps live_key_real liveKey_value
        fal_check_error)

section \<open>Creation: routing and duration\<close>

text \<open>
  \<^bold>\<open>C7\<close>, as stated, fails: creation on the synthetic route can fail outright, and a
  request on the provider route is not always registered. A free-tier request in a browser
  whose storage is full is answered \<open>failed\<close>, and so is a pro-tier request with a real
  key that FAL answers with HTTP 503; in both cases no job is stored.
\<close>

theorem createVideoJob_fails_counterexample:
  "createVideoJob (storageFull 0 None) Map.empty (sunset 10) Free =
     Inr (\<lparr>c_jobId = [], c_status = ''failed'',
           c_error = Some ''The quota has been exceeded.'', c_isImageSequence = False\<rparr>,
          Map.empty)
   \<and> createVideoJob (falDeclines 0 liveKey 503) Map.empty (sunset 10) Pro =
     Inr (\<lparr>c_jobId = [], c_status = ''failed'', c_error = Some ''FAL API error: 503'',
           c_isImageSequence = False\<rparr>,
          Map.empty)"
proof -
  have "createVideoJob_try WithProcess (storageFull 0 None) Map.empty (sunset 10) Free
          = Inl (JsError ''The quota has been exceeded.'')"
    by (simp add: createVideoJob_try_def createImageJob_def setItem_def storageFull_simps)
  moreover
  have "createVideoJob_try WithProcess (falDeclines 0 liveKey 503) Map.empty (sunset 10) Pro
          = Inl (JsError ''FAL API error: 503'')"
    by (simp add: createVideoJob_try_def readApiKey_def falDeclines_simps liveKey_value
        live_key_real toString_values)
  ultimately show ?thesis
    by (simp add: createVideoJob_def createVideoJob_caught)
qed

text \<open>
  \<^bold>\<open>C7\<close>, amended (routing policy of \<open>createVideoJob\<close>, in a runtime \<open>rt\<close>). If the tier
  is free, or \<open>process\<close> exists and no real FAL key is configured (none, empty, or one
  that starts with \<open>demo_\<close>), and the storage accepts the write, creation succeeds with
  status \<open>queued\<close> and stores an image-sequence job (the synthetic route, no provider
  reference). For a paid tier with a real key, the request body \<open>prompt\<close>, \<open>duration\<close>
  (at most 30 for pro, 15 otherwise), \<open>resolution = 1080p\<close>, \<open>aspect_ratio\<close> is submitted
  to FAL under that key; when FAL answers ok with a body that parses and the storage accepts
  the write, creation succeeds with status \<open>queued\<close> and stores a job of provider \<open>fal\<close>
  that records the reference FAL returned. On either route, when the write throws an error
  object, and on the provider route when FAL declines (the request is rejected with an
  error object, answered not ok, or answered with a body that does not parse), creation
  returns status \<open>failed\<close> with an empty id and a non-empty message, and nothing is stored.
\<close>

theorem createVideoJob_routing:
  "(storageFault env SetItem = None
      \<and> (tier = Free \<or> (rt = WithProcess \<and> noRealKey (getApiKey env ''fal''))) \<longrightarrow>
        createVideoJob_in rt env st config tier =
          Inr (\<lparr>c_jobId = newJobId env ''img_'', c_status = ''queued'', c_error = None,
                c_isImageSequence = True\<rparr>,
               st(jobKey (newJobId env ''img_'') \<mapsto> imageJob env config))
        \<and> isImageJob (imageJob env config)
        \<and> j_falJobId (imageJob env config) = None)
   \<and> (storageFault env SetItem = None
      \<and> tier \<noteq> Free \<and> rt = WithProcess \<and> \<not> noRealKey (getApiKey env ''fal'')
      \<and> falSubmit env (getApiKey env ''fal'')
           \<lparr>body_prompt = prompt config,
            body_duration = min (duration config) (if tier = Pro then 30 else 15),
            body_resolution = ''1080p'',
            body_aspect_ratio = aspectRatio config\<rparr> = Inr response
      \<and> ok response \<and> json response = Inr data \<longrightarrow>
        createVideoJob_in rt env st config tier =
          Inr (\<lparr>c_jobId = newJobId env ''job_'', c_status = ''queued'', c_error = None,
                c_isImageSequence = False\<rparr>,
               st(jobKey (newJobId env ''job_'') \<mapsto> falJob env config tier data))
        \<and> \<not> isImageJob (falJob env config tier data)
        \<and> j_provider (falJob env config tier data) = ''fal''
        \<and> j_falJobId (falJob env config tier data) =
            Some (orElse (request_id data) (orElse (job_id data) (newJobId env ''job_''))))
   \<and> (storageFault env SetItem = Some (JsError m)
      \<and> (tier = Free \<or> (rt = WithProcess \<and> noRealKey (getApiKey env ''fal''))
          \<or> (rt = WithProcess
              \<and> falSubmit env (getApiKey env ''fal'')
                   \<lparr>body_prompt = prompt config,
                    body_duration = min (duration config) (if tier = Pro then 30 else 15),
                    body_resolution = ''1080p'',
                    body_aspect_ratio = aspectRatio config\<rparr> = Inr response
              \<and> ok response \<and> json response = Inr data)) \<longrightarrow>
        createVideoJob_in rt env st config tier =
          Inr (\<lparr>c_jobId = [], c_status = ''failed'',
                c_error = Some (if m = [] then ''Failed to create video job'' else m),
                c_isImageSequence = False\<rparr>, st))
   \<and> (tier \<noteq> Free \<and> rt = WithProcess \<and> \<not> noRealKey (getApiKey env ''fal'')
      \<and> declined (falSubmit env (getApiKey env ''fal'')
           \<lparr>body_prompt = prompt config,
            body_duration = min (duration config) (if tier = Pro then 30 else 15),
            body_resolution = ''1080p'',
            body_aspect_ratio = aspectRatio config\<rparr>) \<longrightarrow>
        (\<exists>msg. msg \<noteq> [] \<and>
           createVideoJob_in rt env st config tier =
             Inr (\<lparr>c_jobId = [], c_status = ''failed'', c_error = Some msg,
                   c_isImageSequence = False\<rparr>, st)))"
proof (intro conjI impI)
  assume "storageFault env SetItem = None
      \<and> (tier = Free \<or> (rt = WithProcess \<and> noRealKey (getApiKey env ''fal'')))"
  then show "createVideoJob_in rt env st config tier =
      Inr (\<lparr>c_jobId = newJobId env ''img_'', c_status = ''queued'', c_error = None,
            c_isImageSequence = True\<rparr>,
           st(jobKey (newJobId env ''img_'') \<mapsto> imageJob env config))"
    by (intro createVideoJob_in_image) simp_all
next
  assume "storageFault env SetItem = None
      \<and> tier \<noteq> Free \<and> rt = WithProcess \<and> \<not> noRealKey (getApiKey env ''fal'')
      \<and> falSubmit env (getApiKey env ''fal'')
           \<lparr>body_prompt = prompt config,
            body_duration = min (duration config) (if tier = Pro then 30 else 15),
            body_resolution = ''1080p'',
            body_aspect_ratio = aspectRatio config\<rparr> = Inr response
      \<and> ok response \<and> json response = Inr data"
  then show "createVideoJob_in rt env st config tier =
      Inr (\<lparr>c_jobId = newJobId env ''job_'', c_status = ''queued'', c_error = None,
            c_isImageSequence = False\<rparr>,
           st(jobKey (newJobId env ''job_'') \<mapsto> falJob env config tier data))"
    by (simp add: createVideoJob_in_def createVideoJob_try_def readApiKey_def falRequest_def
        setItem_def tryCatch_def Let_def)
next
  assume a: "storageFault env SetItem = Some (JsError m)
      \<and> (tier = Free \<or> (rt = WithProcess \<and> noRealKey (getApiKey env ''fal''))
          \<or> (rt = WithProcess
              \<and> falSubmit env (getApiKey env ''fal'')
                   \<lparr>body_prompt = prompt config,
                    body_duration = min (duration config) (if tier = Pro then 30 else 15),
                    body_resolution = ''1080p'',
                    body_aspect_ratio = aspectRatio config\<rparr> = Inr response
              \<and> ok response \<and> json response = Inr data))"
  then have "createVideoJob_try rt env st config tier = Inl (JsError m)"
    by (auto simp: createVideoJob_try_def readApiKey_def falRequest_def createImageJob_def
        setItem_def Let_def)
  then show "createVideoJob_in rt env st config tier =
      Inr (\<lparr>c_jobId = [], c_status = ''failed'',
            c_error = Some (if m = [] then ''Failed to create video job'' else m),
            c_isImageSequence = False\<rparr>, st)"
    by (rule createVideoJob_caught)
next
  assume a: "tier \<noteq> Free \<and> rt = WithProcess \<and> \<not> noRealKey (getApiKey env ''fal'')
      \<and> declined (falSubmit env (getApiKey env ''fal'')
           \<lparr>body_prompt = prompt config,
            body_duration = min (duration config) (if tier = Pro then 30 else 15),
            body_resolution = ''1080p'',
            body_aspect_ratio = aspectRatio config\<rparr>)"
  have "falRequest config tier =
           \<lparr>body_prompt = prompt config,
            body_duration = min (duration config) (if tier = Pro then 30 else 15),
            body_resolution = ''1080p'',
            body_aspect_ratio = aspectRatio config\<rparr>"
    by (simp add: falRequest_def)
  with a have "\<exists>msg. createVideoJob_try rt env st config tier = Inl (JsError msg)"
    using createVideoJob_try_declined [where env = env and tier = tier and config = config
        and st = st]
    by simp
  then obtain msg where "createVideoJob_try rt env st config tier = Inl (JsError msg)" ..
  then have "createVideoJob_in rt env st config tier =
      Inr (\<lparr>c_jobId = [], c_status = ''failed'',
            c_error = Some (if msg = [] then ''Failed to create video job'' else msg),
            c_isImageSequence = False\<rparr>, st)"
    by (rule createVideoJob_caught)
  then show "\<exists>msg. msg \<noteq> [] \<and>
           createVideoJob_in rt env st config tier =
             Inr (\<lparr>c_jobId = [], c_status = ''failed'', c_error = Some msg,
                   c_isImageSequence = False\<rparr>, st)"
    by (intro exI [where x = "if msg = [] then ''Failed to create video job'' else msg"]) simp
qed (simp_all add: imageJob_fields falJob_fields)

theorem createVideoJob_routing_witness:
  "createVideoJob_in WithProcess (offline 0 None) Map.empty (sunset 10) Pro =
     Inr (\<lparr>c_jobId = ''img_0_k3x9qz'', c_status = ''queued'', c_error = None,
           c_isImageSequence = True\<rparr>, imageStore)
   \<and> createVideoJob_in WithoutProcess (offline 0 liveKey) Map.empty (sunset 10) Free =
     Inr (\<lparr>c_jobId = ''img_0_k3x9qz'', c_status = ''queued'', c_error = None,
           c_isImageSequence = True\<rparr>, imageStore)
   \<and> createVideoJob_in WithProcess
        (falAcceptsOnly 0 liveKey ''fal_live_key''
           \<lparr>body_prompt = units ''sunset'', body_duration = 10, body_resolution = ''1080p'',
            body_aspect_ratio = R9x16\<rparr>
           \<lparr>request_id = Some ''req_1'', job_id = None\<rparr>)
        Map.empty (sunset 10) Pro =
     Inr (\<lparr>c_jobId = ''job_0_k3x9qz'', c_status = ''queued'', c_error = None,
           c_isImageSequence = False\<rparr>, falStore)
   \<and> map_option j_falJobId (falStore (jobKey ''job_0_k3x9qz'')) = Some (Some ''req_1'')
   \<and> createVideoJob_in WithProcess (storageFull 0 None) Map.empty (sunset 10) Basic =
     Inr (\<lparr>c_jobId = [], c_status = ''failed'',
           c_error = Some ''The quota has been exceeded.'', c_isImageSequence = False\<rparr>,
          Map.empty)
   \<and> (\<exists>msg. msg \<noteq> [] \<and>
        createVideoJob_in WithProcess (falDeclines 0 liveKey 503) Map.empty (sunset 40) Basic =
          Inr (\<lparr>c_jobId = [], c_status = ''failed'', c_error = Some msg,
                c_isImageSequence = False\<rparr>, Map.empty))"
proof -
  let ?d = "\<lparr>request_id = Some ''req_1'', job_id = None\<rparr>"
  let ?b = "\<lparr>body_prompt = units ''sunset'', body_duration = 10, body_resolution = ''1080p'',
            body_aspect_ratio = R9x16\<rparr>"
  let ?fal = "falAcceptsOnly 0 liveKey ''fal_live_key'' ?b ?d"
  have same: "falJob ?fal (sunset 10) Pro ?d = falJob (offline 0 liveKey) (sunset 10) Pro ?d"
    by (simp add: falJob_def newJobId_def falAcceptsOnly_simps offline_simps)
  have id: "newJobId ?fal ''job_'' = ''job_0_k3x9qz''"
    by (simp add: newJobId_def falAcceptsOnly_simps toString_values)
  have 1: "createVideoJob_in WithProcess (offline 0 None) Map.empty (sunset 10) Pro =
     Inr (\<lparr>c_jobId = ''img_0_k3x9qz'', c_status = ''queued'', c_error = None,
           c_isImageSequence = True\<rparr>, imageStore)"
    using createVideoJob_routing [where env = "offline 0 None" and tier = Pro
        and rt = WithProcess and st = Map.empty and config = "sunset 10"]
    by (simp add: offline_simps missing_key newJobId_at_0 imageStore_def)
  have 2: "createVideoJob_in WithoutProcess (offline 0 liveKey) Map.empty (sunset 10) Free =
     Inr (\<lparr>c_jobId = ''img_0_k3x9qz'', c_status = ''queued'', c_error = None,
           c_isImageSequence = True\<rparr>, imageStore)"
    using createVideoJob_routing [where env = "offline 0 liveKey" and tier = Free
        and rt = WithoutProcess and st = Map.empty and config = "sunset 10"]
    by (simp add: offline_simps newJobId_at_0 imageStore_def imageJob_def)
  have 3: "createVideoJob_in WithProcess ?fal Map.empty (sunset 10) Pro =
     Inr (\<lparr>c_jobId = ''job_0_k3x9qz'', c_status = ''queued'', c_error = None,
           c_isImageSequence = False\<rparr>, falStore)"
    using createVideoJob_routing [where env = ?fal and tier = Pro and rt = WithProcess
        and st = Map.empty and config = "sunset 10" and data = ?d
        and response = "\<lparr>ok = True, status = 200, json = Inr ?d\<rparr>"]
    by (simp add: falAcceptsOnly_simps liveKey_value live_key_real sunset_fields id falStore_def
        same)
  have 4: "map_option j_falJobId (falStore (jobKey ''job_0_k3x9qz'')) = Some (Some ''req_1'')"
    by (simp add: falStore_job falJob_fields orElse_def)
  have 5: "createVideoJob_in WithProcess (storageFull 0 None) Map.empty (sunset 10) Basic =
     Inr (\<lparr>c_jobId = [], c_status = ''failed'',
           c_error = Some ''The quota has been exceeded.'', c_isImageSequence = False\<rparr>,
          Map.empty)"
    using createVideoJob_routing [where env = "storageFull 0 None" and tier = Basic
        and rt = WithProcess and st = Map.empty and config = "sunset 10"
        and m = "''The quota has been exceeded.''"]
    by (simp add: storageFull_simps missing_key)
  have 6: "\<exists>msg. msg \<noteq> [] \<and>
        createVideoJob_in WithProcess (falDeclines 0 liveKey 503) Map.empty (sunset 40) Basic =
          Inr (\<lparr>c_jobId = [], c_status = ''failed'', c_error = Some msg,
                c_isImageSequence = False\<rparr>, Map.empty)"
    using createVideoJob_routing [where env = "falDeclines 0 liveKey 503" and tier = Basic
        and rt = WithProcess and st = Map.empty and config = "sunset 40"]
    by (simp add: falDeclines_simps liveKey_real declined_def)
  from 1 2 3 4 5 6 show ?thesis by simp
qed

text \<open>
  \<^bold>\<open>C8\<close>, as stated, fails: a free-tier request for 12 seconds is stored with 12 seconds,
  not with the 10 of \<open>PRICING.free.maxLength\<close>.
\<close>

theorem createVideoJob_duration_counterexample:
  "map_option j_duration (createdJob (createVideoJob (offline 0 None) Map.empty (sunset 12) Free))
     = Some 12
   \<and> min (duration (sunset 12)) (maxLength (PRICING Free)) = 10"
proof -
  have "createdJob (createVideoJob (offline 0 None) Map.empty (sunset 12) Free)
          = Some (imageJob (offline 0 None) (sunset 12))"
    by (simp add: createVideoJob_image offline_simps createdJob_def)
  then show ?thesis
    by (simp add: imageJob_fields sunset_fields PRICING_def)
qed

text \<open>
  \<^bold>\<open>C8\<close>, amended. With a storage that accepts the write: an image-sequence job (free tier,
  or no real FAL key) is stored with the minimum of the requested duration and 16, whatever
  the tier; a job registered with FAL is stored with, and submitted to FAL with, the minimum
  of the requested duration and the tier's \<open>maxLength\<close> of \<open>PRICING\<close> (15 for basic, 30
  for pro).
\<close>

theorem createVideoJob_duration:
  assumes "storageFault env SetItem = None"
  shows "(tier = Free \<or> noRealKey (getApiKey env ''fal'') \<longrightarrow>
            map_option j_duration (createdJob (createVideoJob env st config tier))
              = Some (min (duration config) 16))
       \<and> (tier \<noteq> Free \<and> \<not> noRealKey (getApiKey env ''fal'')
            \<and> falSubmit env (getApiKey env ''fal'') (falRequest config tier) = Inr response
            \<and> ok response \<and> json response = Inr data \<longrightarrow>
            map_option j_duration (createdJob (createVideoJob env st config tier))
              = Some (min (duration config) (maxLength (PRICING tier)))
            \<and> body_duration (falRequest config tier)
              = min (duration config) (maxLength (PRICING tier)))"
proof (intro conjI impI)
  assume "tier = Free \<or> noRealKey (getApiKey env ''fal'')"
  with assms show "map_option j_duration (createdJob (createVideoJob env st config tier))
      = Some (min (duration config) 16)"
    by (simp add: createVideoJob_image createdJob_def imageJob_fields)
next
  assume a: "tier \<noteq> Free \<and> \<not> noRealKey (getApiKey env ''fal'')
      \<and> falSubmit env (getApiKey env ''fal'') (falRequest config tier) = Inr response
      \<and> ok response \<and> json response = Inr data"
  then have limit: "(if tier = Pro then 30 else 15) = maxLength (PRICING tier)"
    by (cases tier) (simp_all add: PRICING_def)
  from a assms have "createVideoJob env st config tier =
      Inr (\<lparr>c_jobId = newJobId env ''job_'', c_status = ''queued'', c_error = None,
            c_isImageSequence = False\<rparr>,
           st(jobKey (newJobId env ''job_'') \<mapsto> falJob env config tier data))"
    by (intro createVideoJob_fal) auto
  then show "map_option j_duration (createdJob (createVideoJob env st config tier))
      = Some (min (duration config) (maxLength (PRICING tier)))"
    by (simp add: createdJob_def falJob_fields limit)
  show "body_duration (falRequest config tier) = min (duration config) (maxLength (PRICING tier))"
    by (simp add: falRequest_def limit)
qed

theorem createVideoJob_duration_witness:
  "map_option j_duration (createdJob (createVideoJob (offline 0 None) Map.empty (sunset 20) Pro))
     = Some 16
   \<and> map_option j_duration
       (createdJob (createVideoJob (falAccepts 0 liveKey \<lparr>request_id = Some ''req_1'', job_id = None\<rparr>)
          Map.empty (sunset 20) Basic)) = Some 15
   \<and> body_duration (falRequest (sunset 20) Basic) = 15"
proof -
  let ?d = "\<lparr>request_id = Some ''req_1'', job_id = None\<rparr>"
  have 1: "map_option j_duration
      (createdJob (createVideoJob (offline 0 None) Map.empty (sunset 20) Pro)) = Some 16"
    using createVideoJob_duration [where env = "offline 0 None" and tier = Pro
        and st = Map.empty and config = "sunset 20"]
    by (simp add: offline_simps missing_key sunset_fields)
  have 2: "map_option j_duration
       (createdJob (createVideoJob (falAccepts 0 liveKey ?d) Map.empty (sunset 20) Basic)) = Some 15
     \<and> body_duration (falRequest (sunset 20) Basic) = 15"
    using createVideoJob_duration [where env = "falAccepts 0 liveKey ?d" and tier = Basic
        and st = Map.empty and config = "sunset 20" and data = ?d
        and response = "\<lparr>ok = True, status = 200, json = Inr ?d\<rparr>"]
    by (simp add: falAccepts_simps liveKey_real sunset_fields PRICING_def)
  from 1 2 show ?thesis by simp
qed

section \<open>Polling\<close>

subsection \<open>An image-sequence job\<close>




text \<open>
  \<^bold>\<open>C9\<close> fails on the code: one poll of an image-sequence job past the threshold, while
  the video does not answer, makes 40 HEAD requests and waits 5000 ms after each, 200000 ms
  in all, before it returns.
\<close>

theorem poll_blocks_while_video_unreachable:
  "getVideoJobStatus (offline 6000 None) imageStore ''img_0_k3x9qz'' =
     Inr (\<lparr>s_status = ''completed'',
           s_videoUrl = Some ''https://image.pollinations.ai/prompt/sunset?width=576&height=1024&nologo=true'',
           s_thumbnail = Some ''https://image.pollinations.ai/prompt/sunset?width=576&height=1024&nologo=true'',
           s_error = Some ''Video generation timed out, using image instead'',
           s_isImageSequence = True\<rparr>, 200000)"
  by (simp add: image_poll_offline)

subsection \<open>A job registered with the provider\<close>

text \<open>
  \<^bold>\<open>C1\<close> fails on the code. A job registered with FAL, polled with the real key 31 seconds
  after its creation while FAL's status endpoint answers HTTP 500: the status check throws
  \<open>FAL API error: 500\<close>, the inner handler drops the error, and the poll reports
  \<open>completed\<close> with the sample video's URL. The HTTP handler never asks FAL: it answers
  \<open>completed\<close> with the same URL for any FAL job older than 30 seconds.
\<close>

theorem provider_failure_polled_completed:
  "checkFal (falErrors 31000 liveKey 500)
      (falJob (offline 0 liveKey) (sunset 10) Pro \<lparr>request_id = Some ''req_1'', job_id = None\<rparr>)
      ''fal_live_key'' = Inl (JsError ''FAL API error: 500'')
   \<and> getVideoJobStatus (falErrors 31000 liveKey 500) falStore ''job_0_k3x9qz'' =
     Inr (\<lparr>s_status = ''completed'',
           s_videoUrl = Some ''https://sample-videos.com/zip/10/mp4/SampleVideo_1280x720_1mb.mp4'',
           s_thumbnail = Some ''https://picsum.photos/320/180?random=job_0_k3x9qz'',
           s_error = None, s_isImageSequence = False\<rparr>, 0)
   \<and> handler_getVideoJobStatus (offline 31000 liveKey) (handlerStore ''fal'' ''processing'')
       (Single ''job_0_k3x9qz'') =
     Inr (respond 200 (StatusJson
            \<lparr>b_status = ''completed'', b_jobId = ''job_0_k3x9qz'',
             b_videoUrl = Some ''https://sample-videos.com/zip/10/mp4/SampleVideo_1280x720_1mb.mp4'',
             b_thumbnail = Some ''https://picsum.photos/320/180?random=job_0_k3x9qz'',
             b_error = None\<rparr>),
          (handlerStore ''fal'' ''processing'')
            (''job_0_k3x9qz'' \<mapsto> (handlerJob ''fal'' ''processing'')\<lparr>a_status := ''completed''\<rparr>))"
proof -
  have "handler_getVideoJobStatus (offline 31000 liveKey) (handlerStore ''fal'' ''processing'')
       (Single ''job_0_k3x9qz'') =
     Inr (respond 200 (StatusJson
            \<lparr>b_status = ''completed'', b_jobId = a_id (handlerJob ''fal'' ''processing''),
             b_videoUrl = Some ''https://sample-videos.com/zip/10/mp4/SampleVideo_1280x720_1mb.mp4'',
             b_thumbnail = Some (''https://picsum.photos/320/180?random='' @ ''job_0_k3x9qz''),
             b_error = None\<rparr>),
          (handlerStore ''fal'' ''processing'')
            (''job_0_k3x9qz'' \<mapsto> (handlerJob ''fal'' ''processing'')\<lparr>a_status := ''completed''\<rparr>))"
    by (intro handler_fal_late) (simp_all add: handlerStore_job offline_simps)
  then show ?thesis
    by (simp add: fal_check_error fal_poll_error falErrors_simps offline_simps falJob_fields
        simulated_def handlerStore_job)
qed

subsection \<open>The order of the statuses\<close>

text \<open>
  \<^bold>\<open>C2\<close>, as stated, fails. The service keeps no status between polls. Of a FAL job polled
  with the real key, the poll at second 10 relays FAL's \<open>completed\<close>, and the poll at
  second 12, whose status request is rejected by the network, falls back to the simulation
  and returns \<open>processing\<close>.
\<close>

theorem polls_regress_counterexample:
  "pollSequence [falReports 10000 liveKey videoReady, offline 12000 liveKey] falStore ''job_0_k3x9qz''
     = [''completed'', ''processing'']"
  by (simp add: fal_poll_reports fal_poll_rejected relayStatus_def videoReady_def truthy_def
      simulated_def offline_simps falJob_fields statusOnly_def)

text \<open>
  \<^bold>\<open>C2\<close>, amended. In the service, for every job id and every sequence of polls at
  non-decreasing times, with a readable storage, none of which consults the provider (an
  image-sequence job, an unknown id or provider, or a FAL job polled without a real key):
  every poll returns, the statuses are among \<open>processing\<close>, \<open>completed\<close> and \<open>failed\<close>,
  and no poll returns a status earlier in the order than one returned before. In the HTTP
  handler the same holds for the polls of a stored FAL job, which are \<open>processing\<close> or
  \<open>completed\<close>.
\<close>

theorem polls_move_forward:
  "(sorted_wrt (\<lambda>a b. now a \<le> now b) es
      \<and> (\<forall>e \<in> set es. storageFault e GetItem = None \<and> \<not> consultsProvider e st jobId) \<longrightarrow>
      length (pollSequence es st jobId) = length es
      \<and> set (pollSequence es st jobId) \<subseteq> {''processing'', ''completed'', ''failed''}
      \<and> sorted_wrt (\<lambda>a b. rank a \<le> rank b) (pollSequence es st jobId))
   \<and> (sorted_wrt (\<lambda>a b. now a \<le> now b) es
      \<and> jobId \<noteq> [] \<and> store jobId = Some job \<and> a_provider job = ''fal'' \<longrightarrow>
      length (handlerPollSequence es store jobId) = length es
      \<and> set (handlerPollSequence es store jobId) \<subseteq> {''processing'', ''completed''}
      \<and> sorted_wrt (\<lambda>a b. rank a \<le> rank b) (handlerPollSequence es store jobId))"
proof (intro conjI impI)
  assume a: "sorted_wrt (\<lambda>a b. now a \<le> now b) es
      \<and> (\<forall>e \<in> set es. storageFault e GetItem = None \<and> \<not> consultsProvider e st jobId)"
  then have eq: "pollSequence es st jobId = map (\<lambda>e. timedStatus st jobId (now e)) es"
    by (simp add: pollSequence_timed)
  show "length (pollSequence es st jobId) = length es"
    by (simp add: eq)
  show "set (pollSequence es st jobId) \<subseteq> {''processing'', ''completed'', ''failed''}"
    using timedStatus_range [of st jobId] by (auto simp: eq)
  show "sorted_wrt (\<lambda>a b. rank a \<le> rank b) (pollSequence es st jobId)"
    unfolding eq using a by (intro forward_by_time timedStatus_forward) auto
next
  assume a: "sorted_wrt (\<lambda>a b. now a \<le> now b) es
      \<and> jobId \<noteq> [] \<and> store jobId = Some job \<and> a_provider job = ''fal''"
  then have eq: "handlerPollSequence es store jobId
      = map (\<lambda>e. if now e - a_createdAt job < 30000 then ''processing'' else ''completed'') es"
    by (simp add: handler_fal_sequence)
  show "length (handlerPollSequence es store jobId) = length es"
    by (simp add: eq)
  show "set (handlerPollSequence es store jobId) \<subseteq> {''processing'', ''completed''}"
    by (auto simp: eq)
  show "sorted_wrt (\<lambda>a b. rank a \<le> rank b) (handlerPollSequence es store jobId)"
    unfolding eq using a
    by (intro forward_by_time [where f = "\<lambda>t. if t - a_createdAt job < 30000 then ''processing''
          else ''completed''"]) (auto simp: rank_def)
qed

theorem polls_move_forward_witness:
  "length (pollSequence [offline 4000 None, reachable 6000 None, offline 9000 None]
             imageStore ''img_0_k3x9qz'') = 3
   \<and> sorted_wrt (\<lambda>a b. rank a \<le> rank b)
        (pollSequence [offline 4000 None, reachable 6000 None, offline 9000 None]
           imageStore ''img_0_k3x9qz'')
   \<and> length (handlerPollSequence [offline 1000 None, offline 31000 None]
               (handlerStore ''fal'' ''processing'') ''job_0_k3x9qz'') = 2
   \<and> sorted_wrt (\<lambda>a b. rank a \<le> rank b)
        (handlerPollSequence [offline 1000 None, offline 31000 None]
           (handlerStore ''fal'' ''processing'') ''job_0_k3x9qz'')"
proof -
  have image: "\<not> consultsProvider e imageStore ''img_0_k3x9qz''" for e
    by (simp add: consultsProvider_def imageStore_job imageJob_fields)
  have 1: "length (pollSequence [offline 4000 None, reachable 6000 None, offline 9000 None]
             imageStore ''img_0_k3x9qz'') = 3
     \<and> sorted_wrt (\<lambda>a b. rank a \<le> rank b)
        (pollSequence [offline 4000 None, reachable 6000 None, offline 9000 None]
           imageStore ''img_0_k3x9qz'')"
    using polls_move_forward [where es = "[offline 4000 None, reachable 6000 None, offline 9000 None]"
        and st = imageStore and jobId = "''img_0_k3x9qz''"
        and store = "handlerStore ''fal'' ''processing''" and job = "handlerJob ''fal'' ''processing''"]
    by (simp add: offline_simps reachable_simps image)
  have 2: "length (handlerPollSequence [offline 1000 None, offline 31000 None]
               (handlerStore ''fal'' ''processing'') ''job_0_k3x9qz'') = 2
     \<and> sorted_wrt (\<lambda>a b. rank a \<le> rank b)
        (handlerPollSequence [offline 1000 None, offline 31000 None]
           (handlerStore ''fal'' ''processing'') ''job_0_k3x9qz'')"
    using polls_move_forward [where es = "[offline 1000 None, offline 31000 None]"
        and st = imageStore and jobId = "''job_0_k3x9qz''"
        and store = "handlerStore ''fal'' ''processing''" and job = "handlerJob ''fal'' ''processing''"]
    by (simp add: offline_simps handlerStore_job)
  from 1 2 show ?thesis by simp
qed

subsection \<open>Unknown and old job ids\<close>

text \<open>
  \<^bold>\<open>C4\<close>, as stated, fails. A record older than one hour that is still in the store is
  not reported missing: two hours after its creation the service polls the image-sequence
  job \<open>completed\<close> and finalizes it, and the handler answers the status request for
  a FAL job with 200 \<open>completed\<close>.
\<close>

theorem old_job_counterexample:
  "getVideoJobStatus (reachable 7200000 None) imageStore ''img_0_k3x9qz'' =
     Inr (\<lparr>s_status = ''completed'',
           s_videoUrl = Some ''https://image.pollinations.ai/prompt/sunset?width=576&height=1024&duration=10&format=mp4&nologo=true'',
           s_thumbnail = Some ''https://image.pollinations.ai/prompt/sunset?width=576&height=1024&duration=10&format=mp4&nologo=true'',
           s_error = None, s_isImageSequence = True\<rparr>, 0)
   \<and> completeVideoGeneration (reachable 7200000 None) imageStore ''img_0_k3x9qz'' Free =
     Inr (\<lparr>g_success = True,
           g_videoUrl = Some ''https://image.pollinations.ai/prompt/sunset?width=576&height=1024&duration=10&format=mp4&nologo=true'',
           g_thumbnail = Some ''https://image.pollinations.ai/prompt/sunset?width=576&height=1024&duration=10&format=mp4&nologo=true'',
           g_error = None, g_tier = Some Free, g_hasAdCard = Some True,
           g_jobId = Some ''img_0_k3x9qz''\<rparr>,
          imageStore(jobKey ''img_0_k3x9qz'' := None))
   \<and> handler_getVideoJobStatus (offline 7200000 None) (handlerStore ''fal'' ''processing'')
       (Single ''job_0_k3x9qz'') =
     Inr (respond 200 (StatusJson
            \<lparr>b_status = ''completed'', b_jobId = ''job_0_k3x9qz'',
             b_videoUrl = Some ''https://sample-videos.com/zip/10/mp4/SampleVideo_1280x720_1mb.mp4'',
             b_thumbnail = Some ''https://picsum.photos/320/180?random=job_0_k3x9qz'',
             b_error = None\<rparr>),
          (handlerStore ''fal'' ''processing'')
            (''job_0_k3x9qz'' \<mapsto> (handlerJob ''fal'' ''processing'')\<lparr>a_status := ''completed''\<rparr>))"
proof -
  have poll: "getVideoJobStatus (reachable 7200000 None) imageStore ''img_0_k3x9qz'' =
     Inr (\<lparr>s_status = ''completed'',
           s_videoUrl = Some ''https://image.pollinations.ai/prompt/sunset?width=576&height=1024&duration=10&format=mp4&nologo=true'',
           s_thumbnail = Some ''https://image.pollinations.ai/prompt/sunset?width=576&height=1024&duration=10&format=mp4&nologo=true'',
           s_error = None, s_isImageSequence = True\<rparr>, 0)"
    by (simp add: image_poll_reachable)
  have handler: "handler_getVideoJobStatus (offline 7200000 None) (handlerStore ''fal'' ''processing'')
       (Single ''job_0_k3x9qz'') =
     Inr (respond 200 (StatusJson
            \<lparr>b_status = ''completed'', b_jobId = a_id (handlerJob ''fal'' ''processing''),
             b_videoUrl = Some ''https://sample-videos.com/zip/10/mp4/SampleVideo_1280x720_1mb.mp4'',
             b_thumbnail = Some (''https://picsum.photos/320/180?random='' @ ''job_0_k3x9qz''),
             b_error = None\<rparr>),
          (handlerStore ''fal'' ''processing'')
            (''job_0_k3x9qz'' \<mapsto> (handlerJob ''fal'' ''processing'')\<lparr>a_status := ''completed''\<rparr>))"
    by (intro handler_fal_late) (simp_all add: handlerStore_job offline_simps)
  show ?thesis
    using finalize_completed [OF poll, where tier = Free] handler
    by (simp add: poll reachable_simps handlerStore_job)
qed

text \<open>
  \<^bold>\<open>C4\<close>, amended. For every job id that is not present in the job store: the service's
  poll (with a readable storage) returns status \<open>failed\<close> with the error
  \<open>Job not found\<close>, and its finalize returns \<open>success = false\<close> with the error
  \<open>Job not completed. Status: failed\<close>, the store unchanged; the HTTP handler answers
  a status request and a complete request for a non-empty id with 404 \<open>Job not found\<close>,
  the store unchanged.
\<close>

theorem unknown_job:
  "(storageFault env GetItem = None \<and> st (jobKey jobId) = None \<longrightarrow>
      getVideoJobStatus env st jobId = Inr (failedWith ''Job not found'', 0)
      \<and> completeVideoGeneration env st jobId tier
          = Inr (notSucceeded ''Job not completed. Status: failed'', st))
   \<and> (jobId \<noteq> [] \<and> store jobId = None \<longrightarrow>
      handler_getVideoJobStatus env store (Single jobId)
        = Inr (respond 404 (ErrorBody ''Job not found'' None), store)
      \<and> completeVideoJob store (Some jobId)
          = (respond 404 (ErrorBody ''Job not found'' None), store))"
proof (intro conjI impI)
  assume a: "storageFault env GetItem = None \<and> st (jobKey jobId) = None"
  then show poll: "getVideoJobStatus env st jobId = Inr (failedWith ''Job not found'', 0)"
    by (simp add: poll_missing)
  show "completeVideoGeneration env st jobId tier
      = Inr (notSucceeded ''Job not completed. Status: failed'', st)"
    using finalize_not_completed [OF poll, where tier = tier] by (simp add: failedWith_def)
qed (simp_all add: handler_missing complete_missing)

theorem unknown_job_witness:
  "getVideoJobStatus (offline 6000 None) imageStore ''img_1_aaaaaa''
     = Inr (failedWith ''Job not found'', 0)
   \<and> completeVideoGeneration (offline 6000 None) imageStore ''img_1_aaaaaa'' Free
       = Inr (notSucceeded ''Job not completed. Status: failed'', imageStore)
   \<and> handler_getVideoJobStatus (offline 6000 None) (handlerStore ''fal'' ''processing'')
       (Single ''job_1_aaaaaa'')
       = Inr (respond 404 (ErrorBody ''Job not found'' None), handlerStore ''fal'' ''processing'')
   \<and> completeVideoJob (handlerStore ''fal'' ''processing'') (Some ''job_1_aaaaaa'')
       = (respond 404 (ErrorBody ''Job not found'' None), handlerStore ''fal'' ''processing'')"
  using unknown_job [where env = "offline 6000 None" and st = imageStore
      and jobId = "''img_1_aaaaaa''" and tier = Free
      and store = "handlerStore ''fal'' ''processing''"]
    unknown_job [where env = "offline 6000 None" and st = imageStore
      and jobId = "''job_1_aaaaaa''" and tier = Free
      and store = "handlerStore ''fal'' ''processing''"]
  by (simp add: offline_simps imageStore_def handlerStore_def jobKey_def)

section \<open>Finalizing\<close>

text \<open>
  \<^bold>\<open>C6\<close> (finalize before completion). In the service, when the poll that finalize makes
  reports \<open>queued\<close> or \<open>processing\<close>, finalize returns \<open>success = false\<close> with the error
  \<open>Job not completed. Status: \<close> followed by that status, and the storage is unchanged.
  In the HTTP handler, for a stored job whose status is \<open>queued\<close> or \<open>processing\<close>,
  the complete request is answered 400 \<open>Job not completed\<close> and the store is unchanged.
\<close>

theorem finalize_not_ready:
  "(getVideoJobStatus env st jobId = Inr (r, w)
      \<and> (s_status r = ''queued'' \<or> s_status r = ''processing'') \<longrightarrow>
      completeVideoGeneration env st jobId tier
        = Inr (notSucceeded (''Job not completed. Status: '' @ s_status r), st))
   \<and> (jobId \<noteq> [] \<and> store jobId = Some job
      \<and> (a_status job = ''queued'' \<or> a_status job = ''processing'') \<longrightarrow>
      completeVideoJob store (Some jobId)
        = (respond 400 (ErrorBody ''Job not completed''
              (Some (''Job status is '' @ a_status job @ '', not completed''))), store))"
proof (intro conjI impI)
  assume "getVideoJobStatus env st jobId = Inr (r, w)
      \<and> (s_status r = ''queued'' \<or> s_status r = ''processing'')"
  then show "completeVideoGeneration env st jobId tier
      = Inr (notSucceeded (''Job not completed. Status: '' @ s_status r), st)"
    by (intro finalize_not_completed [where w = w]) auto
next
  assume "jobId \<noteq> [] \<and> store jobId = Some job
      \<and> (a_status job = ''queued'' \<or> a_status job = ''processing'')"
  then show "completeVideoJob store (Some jobId)
      = (respond 400 (ErrorBody ''Job not completed''
            (Some (''Job status is '' @ a_status job @ '', not completed''))), store)"
    by (intro complete_not_completed) auto
qed

theorem finalize_not_ready_witness:
  "completeVideoGeneration (offline 4000 None) imageStore ''img_0_k3x9qz'' Free
     = Inr (notSucceeded ''Job not completed. Status: processing'', imageStore)
   \<and> completeVideoJob (handlerStore ''piapi'' ''processing'') (Some ''job_0_k3x9qz'')
       = (respond 400 (ErrorBody ''Job not completed''
             (Some ''Job status is processing, not completed'')),
          handlerStore ''piapi'' ''processing'')"
  using finalize_not_ready [where env = "offline 4000 None" and st = imageStore
      and jobId = "''img_0_k3x9qz''" and r = "statusOnly ''processing''" and w = 0
      and tier = Free and store = "handlerStore ''piapi'' ''processing''"
      and job = "handlerJob ''piapi'' ''processing''"]
    finalize_not_ready [where env = "offline 4000 None" and st = imageStore
      and jobId = "''job_0_k3x9qz''" and r = "statusOnly ''processing''" and w = 0
      and tier = Free and store = "handlerStore ''piapi'' ''processing''"
      and job = "handlerJob ''piapi'' ''processing''"]
  by (simp add: image_poll_early statusOnly_def handlerStore_job)




section \<open>The error boundary\<close>

lemma createVideoJob_surfaced:
  assumes "createVideoJob_try rt env st config tier = Inl e"
    and "storageFault env SetItem \<noteq> Some Nullish"
    and "\<not> rejectsNullish (falSubmit env (getApiKey env ''fal'') (falRequest config tier))"
  shows "\<exists>m. e = JsError m \<and>
           createVideoJob_in rt env st config tier =
             Inr (\<lparr>c_jobId = [], c_status = ''failed'',
                   c_error = Some (if m = [] then ''Failed to create video job'' else m),
                   c_isImageSequence = False\<rparr>, st)"
proof -
  from assms have "e \<noteq> Nullish" by (rule createVideoJob_try_throws)
  then obtain m where "e = JsError m" by (cases e) simp_all
  with assms(1) show ?thesis by (simp add: createVideoJob_caught)
qed

lemma createVideoJob_total:
  assumes "storageFault env SetItem \<noteq> Some Nullish"
    and "\<not> rejectsNullish (falSubmit env (getApiKey env ''fal'') (falRequest config tier))"
  shows "\<exists>r st'. createVideoJob_in rt env st config tier = Inr (r, st')"
proof (cases "createVideoJob_try rt env st config tier")
  case (Inl e)
  from createVideoJob_surfaced [OF Inl assms] show ?thesis by blast
next
  case (Inr v)
  then show ?thesis by (cases v) (simp add: createVideoJob_passes)
qed

lemma poll_surfaced:
  assumes "getVideoJobStatus_try rt env st jobId = Inl e"
    and "storageFault env GetItem \<noteq> Some Nullish"
  shows "\<exists>m. e = JsError m \<and>
           getVideoJobStatus_in rt env st jobId =
             Inr (failedWith (if m = [] then ''Failed to check job status'' else m), 0)"
proof -
  from assms have "e \<noteq> Nullish" by (rule poll_try_throws)
  then obtain m where "e = JsError m" by (cases e) simp_all
  with assms(1) show ?thesis by (simp add: poll_caught)
qed

lemma poll_total:
  assumes "storageFault env GetItem \<noteq> Some Nullish"
  shows "\<exists>r w. getVideoJobStatus_in rt env st jobId = Inr (r, w)"
proof (cases "getVideoJobStatus_try rt env st jobId")
  case (Inl e)
  from poll_surfaced [OF Inl assms] show ?thesis by blast
next
  case (Inr v)
  then show ?thesis by (cases v) (simp add: poll_passes)
qed

lemma finalize_surfaced:
  assumes "completeVideoGeneration_try rt env st jobId tier = Inl e"
    and "storageFault env RemoveItem \<noteq> Some Nullish"
  shows "\<exists>m. e = JsError m \<and>
           completeVideoGeneration_in rt env st jobId tier =
             Inr (notSucceeded (if m = [] then ''Failed to complete video generation'' else m),
                  st)"
proof -
  from assms have "e \<noteq> Nullish" by (rule finalize_try_throws)
  then obtain m where "e = JsError m" by (cases e) simp_all
  with assms(1) show ?thesis by (simp add: finalize_caught)
qed

lemma finalize_total:
  assumes "storageFault env RemoveItem \<noteq> Some Nullish"
  shows "\<exists>g st'. completeVideoGeneration_in rt env st jobId tier = Inr (g, st')"
proof (cases "completeVideoGeneration_try rt env st jobId tier")
  case (Inl e)
  from finalize_surfaced [OF Inl assms] show ?thesis by blast
next
  case (Inr v)
  then show ?thesis by (cases v) (simp add: finalize_passes)
qed

text \<open>
  \<^bold>\<open>C10\<close>, as stated, fails twice. Not every error raised inside is surfaced as a failure
  value: when the status request to FAL is rejected, the poll catches the error in its
  inner handler and, 10 seconds after the job's creation, returns \<open>processing\<close> with no
  error. And not every error is caught: when the submission to FAL is rejected with
  \<open>undefined\<close>, the \<open>catch\<close> of \<open>createVideoJob\<close> throws a \<open>TypeError\<close> on
  \<open>error.message\<close>, which reaches the caller.
\<close>

theorem swallowed_error_counterexample:
  "checkFal (offline 10000 liveKey)
      (falJob (offline 0 liveKey) (sunset 10) Pro \<lparr>request_id = Some ''req_1'', job_id = None\<rparr>)
      ''fal_live_key'' = Inl (JsError ''Failed to fetch'')
   \<and> getVideoJobStatus (offline 10000 liveKey) falStore ''job_0_k3x9qz''
       = Inr (\<lparr>s_status = ''processing'', s_videoUrl = None, s_thumbnail = None,
               s_error = None, s_isImageSequence = False\<rparr>, 0)
   \<and> createVideoJob (rejectsUndefined 0 liveKey) Map.empty (sunset 10) Pro
       = Inl (JsError ''Cannot read properties of undefined (reading 'message')'')"
proof -
  have "createVideoJob_try WithProcess (rejectsUndefined 0 liveKey) Map.empty (sunset 10) Pro
          = Inl Nullish"
    by (simp add: createVideoJob_try_def readApiKey_def rejectsUndefined_simps liveKey_value
        live_key_real)
  then have "createVideoJob (rejectsUndefined 0 liveKey) Map.empty (sunset 10) Pro
          = Inl typeError"
    by (simp add: createVideoJob_def createVideoJob_rethrows)
  then show ?thesis
    by (simp add: fal_check_rejected fal_poll_rejected simulated_def offline_simps falJob_fields
        statusOnly_def typeError_def)
qed

text \<open>
  \<^bold>\<open>C10\<close>, amended, in a runtime \<open>rt\<close> and for an error \<open>e\<close> that leaves a \<open>try\<close>
  block. Provided the storage write and the submission to FAL do not throw \<open>undefined\<close>
  or \<open>null\<close>, \<open>createVideoJob\<close> returns a result value, and \<open>e\<close> is an error object
  that its handler surfaces as status \<open>failed\<close> with the error's message (the default
  \<open>Failed to create video job\<close> when that is empty), the storage left as it was.
  Provided the storage read does not throw \<open>undefined\<close> or \<open>null\<close>, the same holds of
  \<open>getVideoJobStatus\<close>, and provided the removal does not, of
  \<open>completeVideoGeneration\<close> with \<open>success = false\<close>. An error of the FAL status request
  does not leave the \<open>try\<close> block of \<open>getVideoJobStatus\<close>: it is caught inside, and while
  less than 30000 ms have passed since \<open>createdAt\<close> the poll returns \<open>processing\<close> with
  no error.
\<close>

theorem operations_never_throw:
  "(storageFault env SetItem \<noteq> Some Nullish
      \<and> \<not> rejectsNullish (falSubmit env (getApiKey env ''fal'') (falRequest config tier)) \<longrightarrow>
        (\<exists>r st'. createVideoJob_in rt env st config tier = Inr (r, st'))
        \<and> (createVideoJob_try rt env st config tier = Inl e \<longrightarrow>
             (\<exists>m. e = JsError m \<and>
                createVideoJob_in rt env st config tier =
                  Inr (\<lparr>c_jobId = [], c_status = ''failed'',
                        c_error = Some (if m = [] then ''Failed to create video job'' else m),
                        c_isImageSequence = False\<rparr>, st))))
   \<and> (storageFault env GetItem \<noteq> Some Nullish \<longrightarrow>
        (\<exists>r w. getVideoJobStatus_in rt env st jobId = Inr (r, w))
        \<and> (getVideoJobStatus_try rt env st jobId = Inl e \<longrightarrow>
             (\<exists>m. e = JsError m \<and>
                getVideoJobStatus_in rt env st jobId =
                  Inr (\<lparr>s_status = ''failed'', s_videoUrl = None, s_thumbnail = None,
                        s_error = Some (if m = [] then ''Failed to check job status'' else m),
                        s_isImageSequence = False\<rparr>, 0))))
   \<and> (storageFault env RemoveItem \<noteq> Some Nullish \<longrightarrow>
        (\<exists>g st'. completeVideoGeneration_in rt env st jobId tier = Inr (g, st'))
        \<and> (completeVideoGeneration_try rt env st jobId tier = Inl e \<longrightarrow>
             (\<exists>m. e = JsError m \<and>
                completeVideoGeneration_in rt env st jobId tier =
                  Inr (\<lparr>g_success = False, g_videoUrl = None, g_thumbnail = None,
                        g_error =
                          Some (if m = [] then ''Failed to complete video generation'' else m),
                        g_tier = None, g_hasAdCard = None, g_jobId = None\<rparr>, st))))
   \<and> (storageFault env GetItem = None \<and> st (jobKey jobId) = Some job \<and> \<not> isImageJob job
        \<and> j_provider job = ''fal'' \<and> \<not> noRealKey (getApiKey env ''fal'')
        \<and> checkFal env job (getApiKey env ''fal'') = Inl e
        \<and> now env - j_createdAt job < 30000 \<longrightarrow>
        getVideoJobStatus_in WithProcess env st jobId = Inr (statusOnly ''processing'', 0))"
proof (intro conjI impI)
  assume "storageFault env SetItem \<noteq> Some Nullish
      \<and> \<not> rejectsNullish (falSubmit env (getApiKey env ''fal'') (falRequest config tier))"
  then show "\<exists>r st'. createVideoJob_in rt env st config tier = Inr (r, st')"
    by (intro createVideoJob_total) simp_all
next
  assume "storageFault env SetItem \<noteq> Some Nullish
      \<and> \<not> rejectsNullish (falSubmit env (getApiKey env ''fal'') (falRequest config tier))"
    and "createVideoJob_try rt env st config tier = Inl e"
  then show "\<exists>m. e = JsError m \<and>
      createVideoJob_in rt env st config tier =
        Inr (\<lparr>c_jobId = [], c_status = ''failed'',
              c_error = Some (if m = [] then ''Failed to create video job'' else m),
              c_isImageSequence = False\<rparr>, st)"
    by (intro createVideoJob_surfaced) simp_all
next
  assume "storageFault env GetItem \<noteq> Some Nullish"
  then show "\<exists>r w. getVideoJobStatus_in rt env st jobId = Inr (r, w)"
    by (rule poll_total)
next
  assume "storageFault env GetItem \<noteq> Some Nullish"
    and "getVideoJobStatus_try rt env st jobId = Inl e"
  from poll_surfaced [OF this(2) this(1)]
  show "\<exists>m. e = JsError m \<and>
      getVideoJobStatus_in rt env st jobId =
        Inr (\<lparr>s_status = ''failed'', s_videoUrl = None, s_thumbnail = None,
              s_error = Some (if m = [] then ''Failed to check job status'' else m),
              s_isImageSequence = False\<rparr>, 0)"
    by (simp add: failedWith_def)
next
  assume "storageFault env RemoveItem \<noteq> Some Nullish"
  then show "\<exists>g st'. completeVideoGeneration_in rt env st jobId tier = Inr (g, st')"
    by (rule finalize_total)
next
  assume "storageFault env RemoveItem \<noteq> Some Nullish"
    and "completeVideoGeneration_try rt env st jobId tier = Inl e"
  from finalize_surfaced [OF this(2) this(1)]
  show "\<exists>m. e = JsError m \<and>
      completeVideoGeneration_in rt env st jobId tier =
        Inr (\<lparr>g_success = False, g_videoUrl = None, g_thumbnail = None,
              g_error = Some (if m = [] then ''Failed to complete video generation'' else m),
              g_tier = None, g_hasAdCard = None, g_jobId = None\<rparr>, st)"
    by (simp add: notSucceeded_def)
next
  assume a: "storageFault env GetItem = None \<and> st (jobKey jobId) = Some job \<and> \<not> isImageJob job
      \<and> j_provider job = ''fal'' \<and> \<not> noRealKey (getApiKey env ''fal'')
      \<and> checkFal env job (getApiKey env ''fal'') = Inl e
      \<and> now env - j_createdAt job < 30000"
  then have "getVideoJobStatus env st jobId = Inr (simulated env job jobId, 0)"
    by (intro poll_fallback [where e = e]) auto
  with a show "getVideoJobStatus_in WithProcess env st jobId = Inr (statusOnly ''processing'', 0)"
    by (simp add: simulated_def getVideoJobStatus_def)
qed

text \<open>
  An instance for each part: creation for the pro tier with a real key while the network
  rejects the submission, and where \<open>process\<close> does not exist; a poll where
  \<open>localStorage\<close> does not exist; a finalize whose removal throws an error with an empty
  message, and one whose poll is rejected because the storage read throws \<open>undefined\<close>;
  a poll of the FAL job, 20 seconds old, whose status request is rejected.
\<close>

theorem operations_never_throw_witness:
  "createVideoJob_in WithProcess (offline 0 liveKey) Map.empty (sunset 10) Pro =
     Inr (\<lparr>c_jobId = [], c_status = ''failed'', c_error = Some ''Failed to fetch'',
           c_isImageSequence = False\<rparr>, Map.empty)
   \<and> createVideoJob_in WithoutProcess (offline 0 liveKey) Map.empty (sunset 10) Pro =
     Inr (\<lparr>c_jobId = [], c_status = ''failed'', c_error = Some ''process is not defined'',
           c_isImageSequence = False\<rparr>, Map.empty)
   \<and> getVideoJobStatus_in WithProcess (noStorage 6000) imageStore ''img_0_k3x9qz'' =
     Inr (\<lparr>s_status = ''failed'', s_videoUrl = None, s_thumbnail = None,
           s_error = Some ''localStorage is not defined'', s_isImageSequence = False\<rparr>, 0)
   \<and> completeVideoGeneration_in WithProcess ((reachable 6000 None)\<lparr>storageFault :=
          (\<lambda>op. if op = RemoveItem then Some (JsError []) else None)\<rparr>)
        imageStore ''img_0_k3x9qz'' Free =
     Inr (\<lparr>g_success = False, g_videoUrl = None, g_thumbnail = None,
           g_error = Some ''Failed to complete video generation'',
           g_tier = None, g_hasAdCard = None, g_jobId = None\<rparr>, imageStore)
   \<and> completeVideoGeneration_in WithProcess ((offline 6000 None)\<lparr>storageFault :=
          (\<lambda>op. if op = GetItem then Some Nullish else None)\<rparr>)
        imageStore ''img_0_k3x9qz'' Free =
     Inr (\<lparr>g_success = False, g_videoUrl = None, g_thumbnail = None,
           g_error = Some ''Cannot read properties of undefined (reading 'message')'',
           g_tier = None, g_hasAdCard = None, g_jobId = None\<rparr>, imageStore)
   \<and> getVideoJobStatus_in WithProcess (offline 20000 liveKey) falStore ''job_0_k3x9qz''
       = Inr (statusOnly ''processing'', 0)"
proof -
  let ?env = "(reachable 6000 None)\<lparr>storageFault :=
      (\<lambda>op. if op = RemoveItem then Some (JsError []) else None)\<rparr>"
  let ?unread = "(offline 6000 None)\<lparr>storageFault :=
      (\<lambda>op. if op = GetItem then Some Nullish else None)\<rparr>"
  have create: "createVideoJob_try WithProcess (offline 0 liveKey) Map.empty (sunset 10) Pro
      = Inl (JsError ''Failed to fetch'')"
    by (simp add: createVideoJob_try_def readApiKey_def offline_simps liveKey_value live_key_real)
  have noprocess: "createVideoJob_try WithoutProcess (offline 0 liveKey) Map.empty (sunset 10) Pro
      = Inl (JsError ''process is not defined'')"
    by (simp add: createVideoJob_try_def readApiKey_def)
  have poll: "getVideoJobStatus_try WithProcess (noStorage 6000) imageStore ''img_0_k3x9qz''
      = Inl (JsError ''localStorage is not defined'')"
    by (simp add: getVideoJobStatus_try_def getItem_def noStorage_simps)
  have "getVideoJobStatus ?env imageStore ''img_0_k3x9qz''
      = Inr (videoReadyResult (videoUrlOf (imageJob (offline 0 None) (sunset 10)) ''sunset''), 5000 * 0)"
    by (intro poll_image_video [where job = "imageJob (offline 0 None) (sunset 10)"])
       (simp_all add: imageStore_job reachable_simps offline_simps imageJob_fields sunset_fields
          sunset_encoded headLoop_first responded_def)
  then have finalize: "completeVideoGeneration_try WithProcess ?env imageStore ''img_0_k3x9qz'' Free
      = Inl (JsError [])"
    by (simp add: completeVideoGeneration_try_def getVideoJobStatus_def videoReadyResult_def
        removeItem_def)
  have "getVideoJobStatus_try WithProcess ?unread imageStore ''img_0_k3x9qz'' = Inl Nullish"
    by (simp add: getVideoJobStatus_try_def getItem_def)
  then have "getVideoJobStatus_in WithProcess ?unread imageStore ''img_0_k3x9qz'' = Inl typeError"
    by (simp add: getVideoJobStatus_in_def tryCatch_def messageOr_simps)
  then have unread: "completeVideoGeneration_try WithProcess ?unread imageStore ''img_0_k3x9qz'' Free
      = Inl (JsError ''Cannot read properties of undefined (reading 'message')'')"
    by (simp add: completeVideoGeneration_try_def typeError_def)
  have relay: "getVideoJobStatus_in WithProcess (offline 20000 liveKey) falStore ''job_0_k3x9qz''
      = Inr (statusOnly ''processing'', 0)"
    using operations_never_throw [where env = "offline 20000 liveKey" and st = falStore
        and jobId = "''job_0_k3x9qz''" and e = "JsError ''Failed to fetch''"
        and job = "falJob (offline 0 liveKey) (sunset 10) Pro
          \<lparr>request_id = Some ''req_1'', job_id = None\<rparr>"]
    by (simp add: offline_simps falStore_job falJob_fields liveKey_value live_key_real
        fal_check_rejected)
  have 1: "createVideoJob_in WithProcess (offline 0 liveKey) Map.empty (sunset 10) Pro =
     Inr (\<lparr>c_jobId = [], c_status = ''failed'', c_error = Some ''Failed to fetch'',
           c_isImageSequence = False\<rparr>, Map.empty)"
    using operations_never_throw [where env = "offline 0 liveKey" and st = Map.empty
        and rt = WithProcess and config = "sunset 10" and tier = Pro
        and e = "JsError ''Failed to fetch''"]
    by (simp add: create offline_simps rejectsNullish_def)
  have 2: "createVideoJob_in WithoutProcess (offline 0 liveKey) Map.empty (sunset 10) Pro =
     Inr (\<lparr>c_jobId = [], c_status = ''failed'', c_error = Some ''process is not defined'',
           c_isImageSequence = False\<rparr>, Map.empty)"
    using operations_never_throw [where env = "offline 0 liveKey" and st = Map.empty
        and rt = WithoutProcess and config = "sunset 10" and tier = Pro
        and e = "JsError ''process is not defined''"]
    by (simp add: noprocess offline_simps rejectsNullish_def)
  have 3: "getVideoJobStatus_in WithProcess (noStorage 6000) imageStore ''img_0_k3x9qz'' =
     Inr (\<lparr>s_status = ''failed'', s_videoUrl = None, s_thumbnail = None,
           s_error = Some ''localStorage is not defined'', s_isImageSequence = False\<rparr>, 0)"
    using operations_never_throw [where env = "noStorage 6000" and st = imageStore
        and rt = WithProcess and jobId = "''img_0_k3x9qz''"
        and e = "JsError ''localStorage is not defined''"]
    by (simp add: poll noStorage_simps)
  have 4: "completeVideoGeneration_in WithProcess ?env imageStore ''img_0_k3x9qz'' Free =
     Inr (\<lparr>g_success = False, g_videoUrl = None, g_thumbnail = None,
           g_error = Some ''Failed to complete video generation'',
           g_tier = None, g_hasAdCard = None, g_jobId = None\<rparr>, imageStore)"
    using operations_never_throw [where env = ?env and st = imageStore
        and rt = WithProcess and jobId = "''img_0_k3x9qz''" and tier = Free and e = "JsError []"]
    by (simp add: finalize)
  have 5: "completeVideoGeneration_in WithProcess ?unread imageStore ''img_0_k3x9qz'' Free =
     Inr (\<lparr>g_success = False, g_videoUrl = None, g_thumbnail = None,
           g_error = Some ''Cannot read properties of undefined (reading 'message')'',
           g_tier = None, g_hasAdCard = None, g_jobId = None\<rparr>, imageStore)"
    using operations_never_throw [where env = ?unread and st = imageStore
        and rt = WithProcess and jobId = "''img_0_k3x9qz''" and tier = Free
        and e = "JsError ''Cannot read properties of undefined (reading 'message')''"]
    by (simp add: unread)
  from 1 2 3 4 5 relay show ?thesis by simp
qed

end
